theory Spec2Isabelle
  imports Complex_Main
begin

text \<open>
  A model of the worker of the job-application system and of the URL normaliser of its
  web front end: string helpers, URL normalisation, the per-domain rate limiter, error
  classification and retry, the Greenhouse and Lever adapters, the orchestrator
  \<open>applyJob\<close>, and the task runner (\<open>claimRun\<close>, \<open>processRun\<close>). Each section gives
  the definitions, translated from the source function by function, then their
  properties. What the browser, the clock and the database do is a parameter of the
  functions that use them.
\<close>

section \<open>JavaScript strings and thrown values\<close>

text \<open>
  A JavaScript string is modelled by the list of its UTF-8 bytes, a \<^typ>\<open>string\<close>. The
  code searches texts for ASCII phrases only, and an ASCII byte never lies inside the
  encoding of another character, so \<open>includes\<close>, \<open>split\<close> and the removal of a character
  are the operations on bytes.
\<close>

text \<open>\<open>startsWith s p\<close> is \<open>s.startsWith(p)\<close>; \<open>str_includes s t\<close> is \<open>s.includes(t)\<close>.\<close>

fun startsWith :: "string \<Rightarrow> string \<Rightarrow> bool" where
  "startsWith s [] = True"
| "startsWith [] (p # ps) = False"
| "startsWith (c # cs) (p # ps) = (c = p \<and> startsWith cs ps)"

fun str_includes :: "string \<Rightarrow> string \<Rightarrow> bool" where
  "str_includes [] t = (t = [])"
| "str_includes (c # cs) t = (startsWith (c # cs) t \<or> str_includes cs t)"

definition endsWith :: "string \<Rightarrow> string \<Rightarrow> bool" where
  "endsWith s p = startsWith (rev s) (rev p)"

definition toLowerChar :: "char \<Rightarrow> char" where
  "toLowerChar c =
     (case map_of (zip ''ABCDEFGHIJKLMNOPQRSTUVWXYZ'' ''abcdefghijklmnopqrstuvwxyz'') c of
        Some l \<Rightarrow> l
      | None \<Rightarrow> c)"

text \<open>
  \<open>toLowerCase\<close>. Besides \<open>A..Z\<close>, two characters have a lower case that holds an ASCII
  letter: the Kelvin sign U+212A (bytes E2 84 AA) becomes \<open>k\<close>, and the dotted capital
  I U+0130 (bytes C4 B0) becomes \<open>i\<close> followed by the combining dot U+0307 (bytes CC
  87). Every other character outside ASCII has a lower case outside ASCII; the model
  leaves its bytes as they are, which changes no search for an ASCII phrase, the only
  use the code makes of a lower-cased text. \<open>lowerFrom k s\<close> lower-cases \<open>s\<close> after
  skipping the \<open>k\<close> bytes left of a character already handled.
\<close>

fun lowerFrom :: "nat \<Rightarrow> string \<Rightarrow> string" where
  "lowerFrom k [] = []"
| "lowerFrom k (c # cs) =
     (if k > 0 then lowerFrom (k - 1) cs
      else if startsWith (c # cs) [CHR 0xE2, CHR 0x84, CHR 0xAA] then CHR ''k'' # lowerFrom 2 cs
      else if startsWith (c # cs) [CHR 0xC4, CHR 0xB0]
      then CHR ''i'' # CHR 0xCC # CHR 0x87 # lowerFrom 1 cs
      else toLowerChar c # lowerFrom 0 cs)"

definition toLowerCase :: "string \<Rightarrow> string" where
  "toLowerCase s = lowerFrom 0 s"

text \<open>
  \<open>trim\<close> strips, at both ends, the characters ECMAScript calls WhiteSpace or
  LineTerminator: U+0009 to U+000D, U+0020, U+00A0, U+1680, U+2000 to U+200A, U+2028,
  U+2029, U+202F, U+205F, U+3000 and U+FEFF, here in their UTF-8 encodings.
\<close>

definition whiteSpace :: "string list" where
  "whiteSpace =
     [[CHR 0x09], [CHR 0x0A], [CHR 0x0B], [CHR 0x0C], [CHR 0x0D], [CHR 0x20],
      [CHR 0xC2, CHR 0xA0],
      [CHR 0xE1, CHR 0x9A, CHR 0x80],
      [CHR 0xE2, CHR 0x80, CHR 0x80], [CHR 0xE2, CHR 0x80, CHR 0x81],
      [CHR 0xE2, CHR 0x80, CHR 0x82], [CHR 0xE2, CHR 0x80, CHR 0x83],
      [CHR 0xE2, CHR 0x80, CHR 0x84], [CHR 0xE2, CHR 0x80, CHR 0x85],
      [CHR 0xE2, CHR 0x80, CHR 0x86], [CHR 0xE2, CHR 0x80, CHR 0x87],
      [CHR 0xE2, CHR 0x80, CHR 0x88], [CHR 0xE2, CHR 0x80, CHR 0x89],
      [CHR 0xE2, CHR 0x80, CHR 0x8A],
      [CHR 0xE2, CHR 0x80, CHR 0xA8], [CHR 0xE2, CHR 0x80, CHR 0xA9],
      [CHR 0xE2, CHR 0x80, CHR 0xAF],
      [CHR 0xE2, CHR 0x81, CHR 0x9F],
      [CHR 0xE3, CHR 0x80, CHR 0x80],
      [CHR 0xEF, CHR 0xBB, CHR 0xBF]]"

text \<open>\<open>spaceAtHead pats s\<close>: the length of the encoding among \<open>pats\<close> that \<open>s\<close> starts
  with, 0 when it starts with none.\<close>

definition spaceAtHead :: "string list \<Rightarrow> string \<Rightarrow> nat" where
  "spaceAtHead pats s = (case find (\<lambda>p. startsWith s p) pats of None \<Rightarrow> 0 | Some p \<Rightarrow> length p)"

text \<open>\<open>dropSpaces pats k s\<close> skips \<open>k\<close> bytes and then every leading character of
  \<open>pats\<close>.\<close>

fun dropSpaces :: "string list \<Rightarrow> nat \<Rightarrow> string \<Rightarrow> string" where
  "dropSpaces pats k [] = []"
| "dropSpaces pats k (c # cs) =
     (if k > 0 then dropSpaces pats (k - 1) cs
      else if spaceAtHead pats (c # cs) = 0 then c # cs
      else dropSpaces pats (spaceAtHead pats (c # cs) - 1) cs)"

definition trimStart :: "string \<Rightarrow> string" where
  "trimStart s = dropSpaces whiteSpace 0 s"

definition trimEnd :: "string \<Rightarrow> string" where
  "trimEnd s = rev (dropSpaces (map rev whiteSpace) 0 (rev s))"

definition trim :: "string \<Rightarrow> string" where
  "trim s = trimEnd (trimStart s)"

lemmas trim_simps = trim_def trimStart_def trimEnd_def spaceAtHead_def whiteSpace_def

lemma trim_nbsp: "trim [CHR 0xC2, CHR 0xA0] = []"
  by (simp add: trim_simps)

lemma trim_mixed:
  "trim (CHR 0xC2 # CHR 0xA0 # CHR 0x0A # '' Email is invalid '' @ [CHR 0xE2, CHR 0x80, CHR 0xA8, CHR 0x09])
     = ''Email is invalid''"
  by (simp add: trim_simps)

lemma toLowerCase_kelvin:
  "toLowerCase (''THAN'' @ [CHR 0xE2, CHR 0x84, CHR 0xAA] @ '' You'') = ''thank you''"
  by (simp add: toLowerCase_def toLowerChar_def)

lemma toLowerCase_dotted_I:
  "toLowerCase (''APPL'' @ [CHR 0xC4, CHR 0xB0] @ ''ED'') = ''appli'' @ [CHR 0xCC, CHR 0x87] @ ''ed''"
  by (simp add: toLowerCase_def toLowerChar_def)

text \<open>\<open>split_on c s\<close> is \<open>s.split(c)\<close> for a one-character separator: never empty.\<close>

fun split_on :: "char \<Rightarrow> string \<Rightarrow> string list" where
  "split_on c [] = [[]]"
| "split_on c (x # xs) =
     (if x = c then [] # split_on c xs
      else (case split_on c xs of
              [] \<Rightarrow> [[x]]
            | w # ws \<Rightarrow> (x # w) # ws))"

text \<open>\<open>join sep xs\<close> is \<open>xs.join(sep)\<close>.\<close>

fun join :: "string \<Rightarrow> string list \<Rightarrow> string" where
  "join sep [] = []"
| "join sep [x] = x"
| "join sep (x # y # ys) = x @ sep @ join sep (y # ys)"

text \<open>\<open>split_first c s\<close> cuts \<open>s\<close> at the first \<open>c\<close>: the part before it, and the part
  after it when there is one.\<close>

fun split_first :: "char \<Rightarrow> string \<Rightarrow> string \<times> string option" where
  "split_first c [] = ([], None)"
| "split_first c (x # xs) =
     (if x = c then ([], Some xs)
      else (case split_first c xs of (a, r) \<Rightarrow> (x # a, r)))"

text \<open>
  A thrown value is Playwright's \<open>TimeoutError\<close>, another \<open>Error\<close> (both with their
  message), or a value that is not an \<open>Error\<close> (with its \<open>String(...)\<close>). An awaited call
  either returns or throws.
\<close>

datatype jsval = TimeoutError string | Error string | Thrown string

datatype 'a outcome = Returned 'a | Threw jsval

section \<open>The platform's URL class\<close>

text \<open>
  The code reads URLs through the platform's \<open>URL\<close> class, which is not part of the
  repository. A parsed URL is a record of the components the code touches; the
  constructor is a parameter \<open>parse\<close> of every function that calls it (\<open>None\<close>: the
  constructor throws), so the theorems hold for every parser. \<open>parse_url\<close> and \<open>href\<close>
  below are one instance, used to evaluate: they follow the URL standard on plain
  \<open>scheme://host/path?query#fragment\<close> strings that need no percent-coding and have no
  user info, port or dot segments.
\<close>

record url =
  protocol :: string
  host :: string
  hostname :: string
  pathname :: string
  searchParams :: "(string \<times> string) list"
  hash :: string

type_synonym url_parser = "string \<Rightarrow> url option"

definition parse_query :: "string \<Rightarrow> (string \<times> string) list" where
  "parse_query q =
     map (\<lambda>kv. case split_first (CHR ''='') kv of (k, v) \<Rightarrow> (k, case v of None \<Rightarrow> [] | Some v' \<Rightarrow> v'))
       (filter (\<lambda>kv. kv \<noteq> []) (split_on (CHR ''&'') q))"

definition parse_authority :: "string \<Rightarrow> string \<Rightarrow> string option \<Rightarrow> string option \<Rightarrow> url option" where
  "parse_authority scheme rest q frag =
     (let h = fst (split_first (CHR ''/'') (drop 2 rest));
          p = snd (split_first (CHR ''/'') (drop 2 rest))
      in if scheme = [] \<or> \<not> startsWith rest ''//'' \<or> h = [] then None
         else Some \<lparr> protocol = toLowerCase scheme @ '':'',
                     host = toLowerCase h,
                     hostname = toLowerCase h,
                     pathname = CHR ''/'' # (case p of None \<Rightarrow> [] | Some p' \<Rightarrow> p'),
                     searchParams = (case q of None \<Rightarrow> [] | Some q' \<Rightarrow> parse_query q'),
                     hash = (case frag of None \<Rightarrow> [] | Some f \<Rightarrow> if f = [] then [] else CHR ''#'' # f) \<rparr>)"

definition parse_url :: url_parser where
  "parse_url s =
     (let s1 = fst (split_first (CHR ''#'') s);
          frag = snd (split_first (CHR ''#'') s);
          s2 = fst (split_first (CHR ''?'') s1);
          q = snd (split_first (CHR ''?'') s1);
          scheme = fst (split_first (CHR '':'') s2)
      in case snd (split_first (CHR '':'') s2) of
           None \<Rightarrow> None
         | Some rest \<Rightarrow> parse_authority scheme rest q frag)"

definition href :: "url \<Rightarrow> string" where
  "href u =
     protocol u @ ''//'' @ host u @ pathname u @
     (if searchParams u = [] then []
      else CHR ''?'' # join ''&'' (map (\<lambda>(k, v). k @ ''='' @ v) (searchParams u))) @
     hash u"

section \<open>normalizeUrl (apps/web/lib/jobs/normalizeUrl.ts)\<close>

definition TRACKING_PARAMS :: "string list" where
  "TRACKING_PARAMS =
     [''utm_source'', ''utm_medium'', ''utm_campaign'', ''utm_term'', ''utm_content'',
      ''ref'', ''referer'', ''source'', ''fbclid'', ''gclid'', ''mc_cid'', ''mc_eid'']"

text \<open>\<open>searchParams.delete(name)\<close> removes every pair of that name and keeps the rest in
  order.\<close>

definition searchParams_delete :: "string \<Rightarrow> url \<Rightarrow> url" where
  "searchParams_delete name u = u\<lparr>searchParams := filter (\<lambda>(k, v). k \<noteq> name) (searchParams u)\<rparr>"

text \<open>
  The body of the \<open>try\<close> block, on the parsed URL: lower-case protocol and host, delete
  each tracking parameter in turn, drop ONE trailing slash of a path longer than \<open>/\<close>,
  clear the fragment. \<open>normalizeUrl\<close> returns its input when the constructor throws.
\<close>

definition normalizeParsed :: "url \<Rightarrow> url" where
  "normalizeParsed p0 =
     (let p1 = p0\<lparr>protocol := toLowerCase (protocol p0)\<rparr>;
          p2 = p1\<lparr>host := toLowerCase (host p1), hostname := toLowerCase (hostname p1)\<rparr>;
          p3 = fold searchParams_delete TRACKING_PARAMS p2;
          p4 = (if length (pathname p3) > 1 \<and> endsWith (pathname p3) ''/''
                then p3\<lparr>pathname := butlast (pathname p3)\<rparr> else p3)
      in p4\<lparr>hash := []\<rparr>)"

definition normalizeUrl :: "url_parser \<Rightarrow> (url \<Rightarrow> string) \<Rightarrow> string \<Rightarrow> string" where
  "normalizeUrl parse toString u =
     (case parse u of
        None \<Rightarrow> u
      | Some parsed \<Rightarrow> toString (normalizeParsed parsed))"

section \<open>Properties of normalizeUrl\<close>

lemmas url_eval_simps =
  parse_url_def parse_authority_def parse_query_def href_def normalizeUrl_def normalizeParsed_def
  searchParams_delete_def TRACKING_PARAMS_def endsWith_def toLowerCase_def toLowerChar_def
  Let_def

lemma normalizeUrl_two_slashes:
  "normalizeUrl parse_url href ''http://x.com/a//'' = ''http://x.com/a/''"
  by (simp add: url_eval_simps)

lemma normalizeUrl_one_slash:
  "normalizeUrl parse_url href ''http://x.com/a/'' = ''http://x.com/a''"
  by (simp add: url_eval_simps)

text \<open>On the parsed URL: the tracking parameters are removed, the others stay in
  order, and the path loses at most its last slash.\<close>

lemma searchParams_fold_delete:
  "searchParams (fold searchParams_delete names u)
     = filter (\<lambda>kv. fst kv \<notin> set names) (searchParams u)"
proof (induction names arbitrary: u)
  case Nil
  then show ?case by simp
next
  case (Cons name names)
  have "filter (\<lambda>kv. fst kv \<notin> set names) (filter (\<lambda>(k, v). k \<noteq> name) (searchParams u))
          = filter (\<lambda>kv. fst kv \<notin> set (name # names)) (searchParams u)"
    by (auto intro: filter_cong)
  with Cons show ?case
    by (simp add: searchParams_delete_def)
qed

lemma other_fold_delete:
  "pathname (fold searchParams_delete names u) = pathname u"
  "protocol (fold searchParams_delete names u) = protocol u"
  "host (fold searchParams_delete names u) = host u"
  by (induction names arbitrary: u) (simp_all add: searchParams_delete_def)

lemma normalizeParsed_searchParams:
  "searchParams (normalizeParsed p) = filter (\<lambda>kv. fst kv \<notin> set TRACKING_PARAMS) (searchParams p)"
  by (simp add: normalizeParsed_def Let_def searchParams_fold_delete)

lemma normalizeParsed_pathname:
  "pathname (normalizeParsed p) =
     (if length (pathname p) > 1 \<and> endsWith (pathname p) ''/'' then butlast (pathname p) else pathname p)"
  by (simp add: normalizeParsed_def Let_def other_fold_delete)

text \<open>
  Claim C7. \<open>normalizeUrl\<close> should be idempotent. On \<open>http://x.com/a//\<close> it is not: the
  code strips one trailing slash per call, so the first call gives \<open>http://x.com/a/\<close> and
  a second call gives \<open>http://x.com/a\<close>.
\<close>

theorem normalizeUrl_not_idempotent:
  "normalizeUrl parse_url href (normalizeUrl parse_url href ''http://x.com/a//'')
     \<noteq> normalizeUrl parse_url href ''http://x.com/a//''"
  by (simp only: normalizeUrl_two_slashes normalizeUrl_one_slash) simp

section \<open>RateLimiter (services/worker/src/rateLimiter.ts)\<close>

text \<open>
  Times are milliseconds, as \<open>Date.now()\<close> gives them. The limiter's state is the map of
  entries and the two limit tables.
\<close>

record RateLimitEntry =
  domain :: string
  lastRequestAt :: int
  requestCount :: nat

record RateLimiter =
  entries :: "string \<rightharpoonup> RateLimitEntry"
  defaultDelayMs :: int
  domainLimits :: "string \<rightharpoonup> int"

definition initialDomainLimits :: "string \<rightharpoonup> int" where
  "initialDomainLimits =
     map_of [(''greenhouse.io'', 5000), (''lever.co'', 5000), (''workday.com'', 10000),
             (''icims.com'', 8000), (''smartrecruiters.com'', 6000)]"

text \<open>The limiter as the constructor leaves it; \<open>d\<close> is \<open>WORKER_CONFIG.rateLimitDelayMs\<close>.\<close>

definition newRateLimiter :: "int \<Rightarrow> RateLimiter" where
  "newRateLimiter d = \<lparr> entries = Map.empty, defaultDelayMs = d, domainLimits = initialDomainLimits \<rparr>"

text \<open>\<open>getDomain\<close>: the last two labels of the host name, the host name itself when it has
  fewer, \<open>unknown\<close> when the URL does not parse.\<close>

definition getDomain :: "url_parser \<Rightarrow> string \<Rightarrow> string" where
  "getDomain parse u =
     (case parse u of
        None \<Rightarrow> ''unknown''
      | Some parsed \<Rightarrow>
          (let parts = split_on (CHR ''.'') (hostname parsed)
           in if length parts \<ge> 2 then join ''.'' (drop (length parts - 2) parts)
              else hostname parsed))"

text \<open>\<open>this.domainLimits.get(domain) || this.defaultDelayMs\<close>: a limit of 0 is falsy.\<close>

definition getLimitForDomain :: "RateLimiter \<Rightarrow> string \<Rightarrow> int" where
  "getLimitForDomain rl d =
     (case domainLimits rl d of
        None \<Rightarrow> defaultDelayMs rl
      | Some l \<Rightarrow> if l = 0 then defaultDelayMs rl else l)"

text \<open>
  \<open>slotWait\<close> is the time \<open>waitForSlot\<close> decides to sleep when the clock reads \<open>now\<close> on
  entry (\<open>None\<close>: it does not sleep).
\<close>

definition slotWait :: "url_parser \<Rightarrow> RateLimiter \<Rightarrow> string \<Rightarrow> int \<Rightarrow> int option" where
  "slotWait parse rl u now =
     (let d = getDomain parse u; limit = getLimitForDomain rl d
      in case entries rl d of
           None \<Rightarrow> None
         | Some entry \<Rightarrow>
             (let elapsed = now - lastRequestAt entry
              in if elapsed < limit then Some (limit - elapsed) else None))"

text \<open>
  \<open>waitForSlot parse u now late rl\<close>: the clock reads \<open>now\<close> on entry; the second
  \<open>Date.now()\<close>, which is recorded, reads \<open>now\<close> plus the time slept plus \<open>late\<close>, the
  time that passed beyond the requested sleep (a timer never fires early).
\<close>

definition waitForSlot :: "url_parser \<Rightarrow> string \<Rightarrow> int \<Rightarrow> nat \<Rightarrow> RateLimiter \<Rightarrow> RateLimiter" where
  "waitForSlot parse u now late rl =
     (let d = getDomain parse u;
          entry = entries rl d;
          slept = (case slotWait parse rl u now of None \<Rightarrow> 0 | Some waitTime \<Rightarrow> waitTime);
          now2 = now + slept + int late
      in rl\<lparr>entries := (entries rl)(d \<mapsto>
              \<lparr> domain = d, lastRequestAt = now2,
                requestCount = (case entry of None \<Rightarrow> 0 | Some e \<Rightarrow> requestCount e) + 1 \<rparr>)\<rparr>)"

definition recordedAt :: "url_parser \<Rightarrow> RateLimiter \<Rightarrow> string \<Rightarrow> int option" where
  "recordedAt parse rl u = map_option lastRequestAt (entries rl (getDomain parse u))"

section \<open>Properties of the RateLimiter\<close>

lemma getLimitForDomain_waitForSlot:
  "getLimitForDomain (waitForSlot parse u now late rl) d = getLimitForDomain rl d"
  by (simp add: getLimitForDomain_def waitForSlot_def Let_def split: option.splits)

text \<open>The time a call records: the reading on entry, plus the time slept, plus the time
  that passed beyond it.\<close>

lemma recordedAt_waitForSlot:
  "recordedAt parse (waitForSlot parse u now late rl) u
     = Some (now + (case slotWait parse rl u now of None \<Rightarrow> 0 | Some waitTime \<Rightarrow> waitTime) + int late)"
  by (simp add: recordedAt_def waitForSlot_def Let_def)

lemma recordedAt_after_entry:
  assumes "entries rl (getDomain parse u) = Some e"
  shows "recordedAt parse (waitForSlot parse u now late rl) u
           = Some (max now (lastRequestAt e + getLimitForDomain rl (getDomain parse u)) + int late)"
  using assms
  by (auto simp: recordedAt_def waitForSlot_def slotWait_def Let_def max_def)

lemma waitForSlot_other_domain:
  assumes "getDomain parse u1 \<noteq> getDomain parse u2"
  shows "slotWait parse (waitForSlot parse u1 now late rl) u2 now2 = slotWait parse rl u2 now2"
proof -
  have e: "entries (waitForSlot parse u1 now late rl) (getDomain parse u2) = entries rl (getDomain parse u2)"
    using assms by (simp add: waitForSlot_def Let_def)
  show ?thesis
    by (simp add: slotWait_def getLimitForDomain_waitForSlot e Let_def)
qed

text \<open>
  Claim C8. Two calls in a row, the second entered when the clock reads \<open>now2\<close> (any
  reading, so also one within the interval). The interval of a domain is the entry of
  the table \<open>domainLimits\<close> for it, and the default when the table has none or has 0.
  When both URLs have the same domain, the second call records the later of \<open>now2\<close>
  and the first recorded time plus the interval (plus what passes beyond the sleep), so
  the two recorded times are at least the interval apart. When the domains differ, the
  first call changes nothing of what the second one sleeps: it sleeps what it would
  have slept without the first call.
\<close>

theorem waitForSlot_spacing:
  "(getDomain parse u1 = getDomain parse u2 \<longrightarrow>
      (\<exists>t1 t2. recordedAt parse (waitForSlot parse u1 now1 late1 rl) u1 = Some t1
             \<and> recordedAt parse (waitForSlot parse u2 now2 late2 (waitForSlot parse u1 now1 late1 rl)) u2 = Some t2
             \<and> t2 = max now2
                      (t1 + (case domainLimits rl (getDomain parse u1) of
                               None \<Rightarrow> defaultDelayMs rl
                             | Some l \<Rightarrow> if l = 0 then defaultDelayMs rl else l)) + int late2
             \<and> t2 - t1 \<ge> (case domainLimits rl (getDomain parse u1) of
                              None \<Rightarrow> defaultDelayMs rl
                            | Some l \<Rightarrow> if l = 0 then defaultDelayMs rl else l)))
   \<and> (getDomain parse u1 \<noteq> getDomain parse u2 \<longrightarrow>
      slotWait parse (waitForSlot parse u1 now1 late1 rl) u2 now2 = slotWait parse rl u2 now2)"
proof (intro conjI impI)
  assume same: "getDomain parse u1 = getDomain parse u2"
  let ?rl1 = "waitForSlot parse u1 now1 late1 rl"
  let ?limit = "case domainLimits rl (getDomain parse u1) of
                  None \<Rightarrow> defaultDelayMs rl
                | Some l \<Rightarrow> if l = 0 then defaultDelayMs rl else l"
  have limit: "getLimitForDomain ?rl1 (getDomain parse u2) = ?limit"
    unfolding getLimitForDomain_waitForSlot using same by (simp add: getLimitForDomain_def)
  obtain t1 where t1: "recordedAt parse ?rl1 u1 = Some t1"
    by (simp add: recordedAt_waitForSlot)
  then obtain e where e: "entries ?rl1 (getDomain parse u2) = Some e" "lastRequestAt e = t1"
    using same by (auto simp: recordedAt_def)
  define t2 where "t2 = max now2 (t1 + ?limit) + int late2"
  have r2: "recordedAt parse (waitForSlot parse u2 now2 late2 ?rl1) u2 = Some t2"
    using recordedAt_after_entry [OF e(1), of now2 late2] e(2) limit by (simp add: t2_def)
  have gap: "t2 - t1 \<ge> ?limit"
    by (simp add: t2_def max_def)
  show "\<exists>t1 t2. recordedAt parse ?rl1 u1 = Some t1
       \<and> recordedAt parse (waitForSlot parse u2 now2 late2 ?rl1) u2 = Some t2
       \<and> t2 = max now2 (t1 + ?limit) + int late2
       \<and> t2 - t1 \<ge> ?limit"
    using t1 r2 gap t2_def by blast
next
  assume "getDomain parse u1 \<noteq> getDomain parse u2"
  then show "slotWait parse (waitForSlot parse u1 now1 late1 rl) u2 now2 = slotWait parse rl u2 now2"
    by (rule waitForSlot_other_domain)
qed

lemma getDomain_workday:
  "getDomain parse_url ''https://acme.workday.com/careers/1'' = ''workday.com''"
  by (simp add: getDomain_def url_eval_simps)

lemma getDomain_eu_workday:
  "getDomain parse_url ''https://jobs.eu.workday.com/acme/2'' = ''workday.com''"
  by (simp add: getDomain_def url_eval_simps)

lemma getDomain_jobs_lever:
  "getDomain parse_url ''https://jobs.lever.co/acme/3'' = ''lever.co''"
  by (simp add: getDomain_def url_eval_simps)

lemma workday_interval:
  "(case domainLimits (newRateLimiter 5000) ''workday.com'' of
      None \<Rightarrow> defaultDelayMs (newRateLimiter 5000)
    | Some l \<Rightarrow> if l = 0 then defaultDelayMs (newRateLimiter 5000) else l) = 10000"
  by (simp add: newRateLimiter_def initialDomainLimits_def)

lemma first_workday:
  "recordedAt parse_url
     (waitForSlot parse_url ''https://acme.workday.com/careers/1'' 1000 0 (newRateLimiter 5000))
     ''https://acme.workday.com/careers/1'' = Some 1000"
  by (simp add: recordedAt_waitForSlot slotWait_def getDomain_workday newRateLimiter_def Let_def)

text \<open>
  The theorem at work on a fresh limiter whose default is 5000 ms. Two Workday URLs,
  whose domain \<open>workday.com\<close> is configured with 10000 ms, entered at 1000 and at 2000:
  the first is recorded at 1000 and the second at 11000. A Lever URL after the Workday
  one does not sleep.
\<close>

theorem waitForSlot_spacing_witness:
  "getDomain parse_url ''https://acme.workday.com/careers/1'' = ''workday.com''
   \<and> getDomain parse_url ''https://jobs.eu.workday.com/acme/2'' = ''workday.com''
   \<and> recordedAt parse_url
        (waitForSlot parse_url ''https://acme.workday.com/careers/1'' 1000 0 (newRateLimiter 5000))
        ''https://acme.workday.com/careers/1'' = Some 1000
   \<and> recordedAt parse_url
        (waitForSlot parse_url ''https://jobs.eu.workday.com/acme/2'' 2000 0
          (waitForSlot parse_url ''https://acme.workday.com/careers/1'' 1000 0 (newRateLimiter 5000)))
        ''https://jobs.eu.workday.com/acme/2'' = Some 11000
   \<and> slotWait parse_url
        (waitForSlot parse_url ''https://acme.workday.com/careers/1'' 1000 0 (newRateLimiter 5000))
        ''https://jobs.lever.co/acme/3'' 2000 = None"
proof -
  have same: "getDomain parse_url ''https://acme.workday.com/careers/1''
                = getDomain parse_url ''https://jobs.eu.workday.com/acme/2''"
    by (simp add: getDomain_workday getDomain_eu_workday)
  have other: "getDomain parse_url ''https://acme.workday.com/careers/1''
                 \<noteq> getDomain parse_url ''https://jobs.lever.co/acme/3''"
    by (simp add: getDomain_workday getDomain_jobs_lever)
  have fresh: "slotWait parse_url (newRateLimiter 5000) ''https://jobs.lever.co/acme/3'' 2000 = None"
    by (simp add: slotWait_def newRateLimiter_def Let_def)
  from waitForSlot_spacing [where parse = parse_url
        and ?u1.0 = "''https://acme.workday.com/careers/1''"
        and ?u2.0 = "''https://jobs.eu.workday.com/acme/2''"
        and ?now1.0 = 1000 and ?late1.0 = 0 and rl = "newRateLimiter 5000"
        and ?now2.0 = 2000 and ?late2.0 = 0, THEN conjunct1, THEN mp, OF same]
  obtain t1 t2 where
    t1: "recordedAt parse_url
          (waitForSlot parse_url ''https://acme.workday.com/careers/1'' 1000 0 (newRateLimiter 5000))
          ''https://acme.workday.com/careers/1'' = Some t1"
    and r2: "recordedAt parse_url
          (waitForSlot parse_url ''https://jobs.eu.workday.com/acme/2'' 2000 0
            (waitForSlot parse_url ''https://acme.workday.com/careers/1'' 1000 0 (newRateLimiter 5000)))
          ''https://jobs.eu.workday.com/acme/2'' = Some t2"
    and t2: "t2 = max 2000
               (t1 + (case domainLimits (newRateLimiter 5000)
                             (getDomain parse_url ''https://acme.workday.com/careers/1'') of
                        None \<Rightarrow> defaultDelayMs (newRateLimiter 5000)
                      | Some l \<Rightarrow> if l = 0 then defaultDelayMs (newRateLimiter 5000) else l)) + int 0"
    by blast
  have "t1 = 1000"
    using t1 first_workday by simp
  then have "t2 = 11000"
    using t2 unfolding getDomain_workday workday_interval by simp
  with r2 have second: "recordedAt parse_url
          (waitForSlot parse_url ''https://jobs.eu.workday.com/acme/2'' 2000 0
            (waitForSlot parse_url ''https://acme.workday.com/careers/1'' 1000 0 (newRateLimiter 5000)))
          ''https://jobs.eu.workday.com/acme/2'' = Some 11000"
    by simp
  have third: "slotWait parse_url
        (waitForSlot parse_url ''https://acme.workday.com/careers/1'' 1000 0 (newRateLimiter 5000))
        ''https://jobs.lever.co/acme/3'' 2000 = None"
    using waitForSlot_spacing [where parse = parse_url
        and ?u1.0 = "''https://acme.workday.com/careers/1''"
        and ?u2.0 = "''https://jobs.lever.co/acme/3''"
        and ?now1.0 = 1000 and ?late1.0 = 0 and rl = "newRateLimiter 5000"
        and ?now2.0 = 2000 and ?late2.0 = 0, THEN conjunct2, THEN mp, OF other] fresh
    by simp
  show ?thesis
    using getDomain_workday getDomain_eu_workday first_workday second third by blast
qed

section \<open>Error classification and retries (services/worker/src/runner/errorHandler.ts)\<close>

datatype ErrorCategory =
  NETWORK | TIMEOUT | ELEMENT_NOT_FOUND | VALIDATION | CAPTCHA | RATE_LIMITED
  | ALREADY_APPLIED | SESSION_EXPIRED | UNKNOWN

record ClassifiedError =
  category :: ErrorCategory
  code :: string
  message :: string
  retryable :: bool
  maxRetries :: nat
  originalError :: "jsval option"

definition classifyError :: "jsval \<Rightarrow> ClassifiedError" where
  "classifyError error =
     (case error of
        TimeoutError m \<Rightarrow>
          \<lparr> category = TIMEOUT, code = ''TIMEOUT'', message = ''Operation timed out'',
            retryable = True, maxRetries = 2, originalError = Some error \<rparr>
      | Error m \<Rightarrow>
          (let msg = toLowerCase m in
           if str_includes msg ''net::'' \<or> str_includes msg ''network''
              \<or> str_includes msg ''connection refused'' \<or> str_includes msg ''econnrefused''
           then \<lparr> category = NETWORK, code = ''NETWORK_ERROR'', message = ''Network connection failed'',
                  retryable = True, maxRetries = 3, originalError = Some error \<rparr>
           else if str_includes msg ''waiting for selector'' \<or> str_includes msg ''element not found''
              \<or> str_includes msg ''no element matching''
           then \<lparr> category = ELEMENT_NOT_FOUND, code = ''ELEMENT_NOT_FOUND'',
                  message = ''Required page element not found'',
                  retryable = True, maxRetries = 1, originalError = Some error \<rparr>
           else if str_includes msg ''session'' \<or> str_includes msg ''login''
              \<or> str_includes msg ''unauthorized''
           then \<lparr> category = SESSION_EXPIRED, code = ''SESSION_EXPIRED'',
                  message = ''Session expired or authentication required'',
                  retryable = False, maxRetries = 0, originalError = Some error \<rparr>
           else \<lparr> category = UNKNOWN, code = ''UNKNOWN_ERROR'', message = m,
                  retryable = False, maxRetries = 0, originalError = Some error \<rparr>)
      | Thrown v \<Rightarrow>
          \<lparr> category = UNKNOWN, code = ''UNKNOWN_ERROR'', message = ''An unknown error occurred'',
            retryable = False, maxRetries = 0, originalError = None \<rparr>)"



























section \<open>Site adapters (runner/adapters/base.ts, greenhouse.ts, lever.ts)\<close>

datatype ApplyStatus = succeeded | failed | blocked | dry_run_complete | needs_input

datatype FieldType = ft_select | ft_text | ft_textarea | ft_radio | ft_checkbox

record RequiredInput =
  fieldName :: string
  fieldType :: FieldType
  options :: "string list option"
  required :: bool

record ApplyResult =
  status :: ApplyStatus
  fieldsFilledCount :: nat
  fieldsFailed :: "string list"
  screenshots :: "string list"
  errorCode :: "string option"
  errorMessage :: "string option"
  confirmationMessage :: "string option"
  requiredInputs :: "RequiredInput list option"

text \<open>\<open>orEmpty x\<close> is \<open>x || ''\<close> for a string that may be null.\<close>

definition orEmpty :: "string option \<Rightarrow> string" where
  "orEmpty x = (case x of None \<Rightarrow> [] | Some s \<Rightarrow> s)"

text \<open>The decimal digits of a number, as a template literal prints it.\<close>

function showNat :: "nat \<Rightarrow> string" where
  "showNat n = (if n < 10 then [''0123456789'' ! n] else showNat (n div 10) @ [''0123456789'' ! (n mod 10)])"
  by pat_completeness auto
termination
  by (relation "measure id") auto

declare showNat.simps [simp del]

subsection \<open>The form as the pre-submit scan reads it\<close>

text \<open>
  The scan of \<open>detectUnfilledRequiredFields\<close> reads three lists of elements off the page.
  An element is what the scan reads of it; \<open>throws\<close> says that a call on the element
  rejects (the \<open>catch\<close> of the loop body then skips it). A list is \<open>None\<close> when the
  query \<open>page.$$\<close> itself rejects.
\<close>

record option_el =
  opt_text :: "string option"
  opt_value :: "string option"

record select_el =
  sel_throws :: bool
  sel_value :: string
  sel_selectedText :: "string option"
  sel_required :: bool
  sel_containerText :: "string option"
  sel_options :: "option_el list"

record dropdown_el =
  dd_throws :: bool
  dd_text :: "string option"
  dd_containerText :: "string option"
  dd_optionTexts :: "string option list"

record input_el =
  in_throws :: bool
  in_value :: string
  in_required :: bool
  in_containerText :: "string option"
  in_tagName :: string

record form_state =
  selects :: "select_el list option"
  customDropdowns :: "dropdown_el list option"
  textInputs :: "input_el list option"

text \<open>\<open>removeAllCI k pat s\<close>: \<open>s.replace(/pat/gi, '')\<close> for a literal lower-case ASCII
  pattern; \<open>k\<close> counts the bytes of a match still to be skipped. The expression has
  no \<open>u\<close> flag, so its \<open>i\<close> flag matches an ASCII letter with its other case only.\<close>

fun removeAllCI :: "nat \<Rightarrow> string \<Rightarrow> string \<Rightarrow> string" where
  "removeAllCI k pat [] = []"
| "removeAllCI k pat (c # cs) =
     (if k > 0 then removeAllCI (k - 1) pat cs
      else if pat \<noteq> [] \<and> startsWith (map toLowerChar (c # cs)) pat then removeAllCI (length pat - 1) pat cs
      else c # removeAllCI 0 pat cs)"

definition firstLine :: "string \<Rightarrow> string" where
  "firstLine s = (case split_on (CHR 0x0A) s of [] \<Rightarrow> [] | l # ls \<Rightarrow> l)"

text \<open>\<open>labelText.replace(/\*/g, '').trim().split('\n')[0].trim()\<close>\<close>

definition fieldNameOf :: "string \<Rightarrow> string" where
  "fieldNameOf labelText = trim (firstLine (trim (filter (\<lambda>c. c \<noteq> CHR ''*'') labelText)))"

text \<open>The options kept for the user: \<open>optValue && optText &&
  !optText.toLowerCase().includes('select') && optText !== '--'\<close>, each as its trimmed text.\<close>

definition keptOption :: "option_el \<Rightarrow> bool" where
  "keptOption opt =
     (let optText = trim (orEmpty (opt_text opt))
      in orEmpty (opt_value opt) \<noteq> [] \<and> optText \<noteq> []
         \<and> \<not> str_includes (toLowerCase optText) ''select'' \<and> optText \<noteq> ''--'')"

definition selectOptions :: "select_el \<Rightarrow> string list" where
  "selectOptions sel = map (\<lambda>opt. trim (orEmpty (opt_text opt))) (filter keptOption (sel_options sel))"

definition scanSelect :: "select_el \<Rightarrow> RequiredInput list" where
  "scanSelect sel =
     (if sel_throws sel then []
      else if sel_value sel = [] \<or> str_includes (toLowerCase (orEmpty (sel_selectedText sel))) ''select''
      then (let labelText = orEmpty (sel_containerText sel);
                hasAsterisk = str_includes labelText ''*''
            in if sel_required sel \<or> hasAsterisk
               then [\<lparr> fieldName = fieldNameOf labelText, fieldType = ft_select,
                       options = Some (selectOptions sel), required = True \<rparr>]
               else [])
      else [])"

definition scanDropdown :: "dropdown_el \<Rightarrow> RequiredInput list" where
  "scanDropdown dd =
     (if dd_throws dd then []
      else if orEmpty (dd_text dd) \<noteq> [] \<and> str_includes (toLowerCase (orEmpty (dd_text dd))) ''select''
      then (let labelText = orEmpty (dd_containerText dd)
            in if str_includes labelText ''*''
               then [\<lparr> fieldName =
                         trim (firstLine (trim (removeAllCI 0 ''select...''
                           (filter (\<lambda>c. c \<noteq> CHR ''*'') labelText)))),
                       fieldType = ft_select,
                       options = Some (filter (\<lambda>t. t \<noteq> []) (map (\<lambda>t. trim (orEmpty t)) (dd_optionTexts dd))),
                       required = True \<rparr>]
               else [])
      else [])"

definition scanInput :: "input_el \<Rightarrow> RequiredInput list" where
  "scanInput inp =
     (if in_throws inp then []
      else if in_value inp = []
      then (let labelText = orEmpty (in_containerText inp);
                hasAsterisk = str_includes labelText ''*''
            in if in_required inp \<or> hasAsterisk
               then [\<lparr> fieldName = fieldNameOf labelText,
                       fieldType = (if in_tagName inp = ''textarea'' then ft_textarea else ft_text),
                       options = None, required = True \<rparr>]
               else [])
      else [])"

text \<open>The three loops in order; a query that rejects ends the scan with what it has.\<close>

definition detectUnfilledRequiredFields :: "form_state \<Rightarrow> RequiredInput list" where
  "detectUnfilledRequiredFields form =
     (case selects form of
        None \<Rightarrow> []
      | Some ss \<Rightarrow>
          (case customDropdowns form of
             None \<Rightarrow> concat (map scanSelect ss)
           | Some ds \<Rightarrow>
               (case textInputs form of
                  None \<Rightarrow> concat (map scanSelect ss) @ concat (map scanDropdown ds)
                | Some ts \<Rightarrow>
                    concat (map scanSelect ss) @ concat (map scanDropdown ds)
                      @ concat (map scanInput ts))))"

subsection \<open>The page after submission\<close>

text \<open>
  What \<open>detectOutcome\<close> reads: the text of \<open>body\<close> (which may be null), the elements the
  error selector matches, in document order, and the URL. The query \<open>page.$$\<close> returns
  every matching element, rendered or not; \<open>el_visible\<close> says whether the element is
  rendered, which the code never asks.
\<close>

record error_el =
  el_visible :: bool
  el_text :: "string option"

record outcome_page =
  bodyText :: "string option"
  errorElements :: "error_el list"
  currentUrl :: string

definition pageText :: "outcome_page \<Rightarrow> string" where
  "pageText pg = toLowerCase (orEmpty (bodyText pg))"

definition mentions :: "string list \<Rightarrow> outcome_page \<Rightarrow> bool" where
  "mentions indicators pg = list_ex (\<lambda>indicator. str_includes (pageText pg) indicator) indicators"

text \<open>The trimmed, non-empty texts among the first three matched error elements.\<close>

definition errorTexts :: "outcome_page \<Rightarrow> string list" where
  "errorTexts pg =
     filter (\<lambda>t. t \<noteq> []) (map (\<lambda>el. trim (orEmpty (el_text el))) (take 3 (errorElements pg)))"

definition baseResult :: "ApplyStatus \<Rightarrow> nat \<Rightarrow> string list \<Rightarrow> string list \<Rightarrow> ApplyResult" where
  "baseResult st n fieldsFailed' shots =
     \<lparr> status = st, fieldsFilledCount = n, fieldsFailed = fieldsFailed', screenshots = shots,
       errorCode = None, errorMessage = None, confirmationMessage = None, requiredInputs = None \<rparr>"

definition gh_successIndicators :: "string list" where
  "gh_successIndicators =
     [''thank you for applying'', ''application received'', ''successfully submitted'',
      ''application submitted'', ''thanks for applying'', ''we received your application'',
      ''you have applied'', ''your application has been submitted'']"

definition gh_alreadyAppliedIndicators :: "string list" where
  "gh_alreadyAppliedIndicators = [''already applied'', ''duplicate application'', ''previously applied'']"

definition gh_captchaIndicators :: "string list" where
  "gh_captchaIndicators = [''captcha'', ''verify you are human'']"

definition gh_detectOutcome :: "outcome_page \<Rightarrow> nat \<Rightarrow> string list \<Rightarrow> string list \<Rightarrow> ApplyResult" where
  "gh_detectOutcome pg n fieldsFailed' shots =
     (if mentions gh_successIndicators pg
      then (baseResult succeeded n fieldsFailed' shots)
             \<lparr>confirmationMessage := Some ''Application submitted successfully''\<rparr>
      else if mentions gh_alreadyAppliedIndicators pg
      then (baseResult blocked n fieldsFailed' shots)
             \<lparr>errorCode := Some ''ALREADY_APPLIED'',
              errorMessage := Some ''You have already applied to this position''\<rparr>
      else if errorElements pg \<noteq> [] \<and> errorTexts pg \<noteq> []
      then (baseResult failed n fieldsFailed' shots)
             \<lparr>errorCode := Some ''VALIDATION_ERROR'',
              errorMessage := Some (''Form validation failed: '' @ join ''; '' (errorTexts pg))\<rparr>
      else if mentions gh_captchaIndicators pg
      then (baseResult blocked n fieldsFailed' shots)
             \<lparr>errorCode := Some ''CAPTCHA_DETECTED'',
              errorMessage := Some ''CAPTCHA or human verification required''\<rparr>
      else (baseResult succeeded n fieldsFailed' shots)
             \<lparr>confirmationMessage := Some ''Application submitted''\<rparr>)"

definition lv_successIndicators :: "string list" where
  "lv_successIndicators =
     [''thank you for applying'', ''application received'', ''successfully submitted'',
      ''application submitted'', ''thanks for applying'', ''your application has been received'',
      ''we got your application'']"

definition lv_alreadyAppliedIndicators :: "string list" where
  "lv_alreadyAppliedIndicators = [''already applied'', ''duplicate application'', ''you have applied'']"

definition lv_captchaIndicators :: "string list" where
  "lv_captchaIndicators = [''captcha'', ''verify you are human'', ''recaptcha'']"

definition confirmationUrl :: "outcome_page \<Rightarrow> bool" where
  "confirmationUrl pg =
     (str_includes (currentUrl pg) ''/thanks'' \<or> str_includes (currentUrl pg) ''/confirmation''
      \<or> str_includes (currentUrl pg) ''/applied'')"

definition lv_detectOutcome :: "outcome_page \<Rightarrow> nat \<Rightarrow> string list \<Rightarrow> string list \<Rightarrow> ApplyResult" where
  "lv_detectOutcome pg n fieldsFailed' shots =
     (if mentions lv_successIndicators pg
      then (baseResult succeeded n fieldsFailed' shots)
             \<lparr>confirmationMessage := Some ''Application submitted successfully''\<rparr>
      else if mentions lv_alreadyAppliedIndicators pg
      then (baseResult blocked n fieldsFailed' shots)
             \<lparr>errorCode := Some ''ALREADY_APPLIED'',
              errorMessage := Some ''You have already applied to this position''\<rparr>
      else if errorElements pg \<noteq> [] \<and> errorTexts pg \<noteq> []
      then (baseResult failed n fieldsFailed' shots)
             \<lparr>errorCode := Some ''VALIDATION_ERROR'',
              errorMessage := Some (''Form validation failed: '' @ join ''; '' (errorTexts pg))\<rparr>
      else if mentions lv_captchaIndicators pg
      then (baseResult blocked n fieldsFailed' shots)
             \<lparr>errorCode := Some ''CAPTCHA_DETECTED'',
              errorMessage := Some ''CAPTCHA or human verification required''\<rparr>
      else if confirmationUrl pg
      then (baseResult succeeded n fieldsFailed' shots)
             \<lparr>confirmationMessage := Some ''Application submitted (redirected to confirmation)''\<rparr>
      else (baseResult succeeded n fieldsFailed' shots)
             \<lparr>confirmationMessage := Some ''Application submitted''\<rparr>)"

subsection \<open>apply\<close>

text \<open>
  What the browser does during one call of \<open>apply\<close>: whether \<open>navigateToForm\<close> finds the
  form, what \<open>fillFormFields\<close> counts and which labels it pushed to \<open>fieldsFailed\<close>
  (both can throw: the page may close under them), whether the resume upload worked,
  what \<open>handleCustomQuestions\<close> counts when \<open>apply\<close> calls it itself (Lever), the path
  \<open>takeScreenshot\<close> returns for a name if any, the form as the pre-submit scan reads
  it, whether a submit control is found and whether clicking it throws, and the page
  that is read after submission. \<open>apply\<close> returns its result and the actions it took,
  in order; \<open>ClickSubmit\<close> is the click on the submit control.
\<close>

record adapter_env =
  navigateToForm_result :: "bool outcome"
  fillFormFields_result :: "nat outcome"
  fillFormFields_failed :: "string list"
  uploadResume_result :: bool
  handleCustomQuestions_result :: "nat outcome"
  takeScreenshot :: "string \<Rightarrow> string option"
  formAtGate :: form_state
  submitButton :: bool
  submitClickThrows :: bool
  postSubmit :: "outcome_page outcome"

datatype action =
  NavigateToForm | TakeScreenshot string | FillFormFields | UploadResume | HandleCoverLetter
  | HandleCustomQuestions | DetectUnfilledRequiredFields | ClickSubmit | WaitForLoadState
  | DetectOutcome

definition shot :: "adapter_env \<Rightarrow> string \<Rightarrow> string list" where
  "shot env name = (case takeScreenshot env name of None \<Rightarrow> [] | Some path \<Rightarrow> [path])"

text \<open>\<open>error instanceof Error ? error.message : 'Unknown error'\<close>\<close>

definition errorMessageOf :: "jsval \<Rightarrow> string" where
  "errorMessageOf error =
     (case error of TimeoutError m \<Rightarrow> m | Error m \<Rightarrow> m | Thrown v \<Rightarrow> ''Unknown error'')"

text \<open>The \<open>catch\<close> block of \<open>apply\<close>, with the locals as they are when the error arrives.\<close>

definition adapterError ::
  "adapter_env \<Rightarrow> nat \<Rightarrow> string list \<Rightarrow> string list \<Rightarrow> action list \<Rightarrow> jsval \<Rightarrow> ApplyResult \<times> action list"
where
  "adapterError env n fieldsFailed' shots acts error =
     ((baseResult failed n fieldsFailed' (shots @ shot env ''error''))
        \<lparr>errorCode := Some ''ADAPTER_ERROR'', errorMessage := Some (errorMessageOf error)\<rparr>,
      acts @ [TakeScreenshot ''error''])"

definition formNotFound :: "ApplyResult" where
  "formNotFound =
     (baseResult failed 0 [] [])
       \<lparr>errorCode := Some ''FORM_NOT_FOUND'',
        errorMessage := Some ''Could not find or navigate to application form''\<rparr>"

definition dryRunComplete :: "nat \<Rightarrow> string list \<Rightarrow> string list \<Rightarrow> ApplyResult" where
  "dryRunComplete n fieldsFailed' shots =
     (baseResult dry_run_complete n fieldsFailed' shots)
       \<lparr>confirmationMessage := Some ''Dry run completed - form filled but not submitted''\<rparr>"

definition submitFailed :: "nat \<Rightarrow> string list \<Rightarrow> string list \<Rightarrow> ApplyResult" where
  "submitFailed n fieldsFailed' shots =
     (baseResult failed n fieldsFailed' shots)
       \<lparr>errorCode := Some ''SUBMIT_FAILED'',
        errorMessage := Some ''Could not find or click submit button''\<rparr>"

text \<open>
  The part of \<open>apply\<close> from \<open>submitForm\<close> on, the same in both adapters but for
  \<open>detectOutcome\<close>: \<open>submitForm\<close> clicks the control when it finds one and returns false
  when there is none or the click throws.
\<close>

definition submitAndDetect ::
  "(outcome_page \<Rightarrow> nat \<Rightarrow> string list \<Rightarrow> string list \<Rightarrow> ApplyResult) \<Rightarrow> adapter_env \<Rightarrow> nat
     \<Rightarrow> string list \<Rightarrow> string list \<Rightarrow> action list \<Rightarrow> ApplyResult \<times> action list"
where
  "submitAndDetect detectOutcome env n fieldsFailed' shots acts =
     (let acts1 = (if submitButton env then acts @ [ClickSubmit] else acts);
          submitted = (submitButton env \<and> \<not> submitClickThrows env)
      in if \<not> submitted then (submitFailed n fieldsFailed' shots, acts1)
         else (let shots1 = shots @ shot env ''post-submit'';
                   acts2 = acts1 @ [WaitForLoadState, TakeScreenshot ''post-submit'', DetectOutcome]
               in case postSubmit env of
                    Threw error \<Rightarrow> adapterError env n fieldsFailed' shots1 acts2 error
                  | Returned pg \<Rightarrow> (detectOutcome pg n fieldsFailed' shots1, acts2)))"

definition needsInput :: "nat \<Rightarrow> string list \<Rightarrow> string list \<Rightarrow> RequiredInput list \<Rightarrow> ApplyResult" where
  "needsInput n fieldsFailed' shots unfilledFields =
     (baseResult needs_input n fieldsFailed' shots)
       \<lparr>requiredInputs := Some unfilledFields,
        errorMessage := Some (''Application requires answers to '' @ showNat (length unfilledFields)
                               @ '' custom question(s)'')\<rparr>"

text \<open>\<open>GreenhouseAdapter.apply\<close>: the dry-run return comes before the pre-submit scan.\<close>

definition gh_afterFill ::
  "adapter_env \<Rightarrow> bool \<Rightarrow> nat \<Rightarrow> string list \<Rightarrow> action list \<Rightarrow> ApplyResult \<times> action list"
where
  "gh_afterFill env dryRun filled shots acts =
     (let fieldsFailed' = fillFormFields_failed env;
          n = (if uploadResume_result env then filled + 1 else filled);
          shots1 = shots @ shot env ''pre-submit'';
          acts1 = acts @ [UploadResume, HandleCoverLetter, TakeScreenshot ''pre-submit'']
      in if dryRun then (dryRunComplete n fieldsFailed' shots1, acts1)
         else (let unfilledFields = detectUnfilledRequiredFields (formAtGate env);
                   acts2 = acts1 @ [DetectUnfilledRequiredFields]
               in if length unfilledFields > 0
                  then (needsInput n fieldsFailed' shots1 unfilledFields, acts2)
                  else submitAndDetect gh_detectOutcome env n fieldsFailed' shots1 acts2))"

definition gh_apply :: "adapter_env \<Rightarrow> bool \<Rightarrow> ApplyResult \<times> action list" where
  "gh_apply env dryRun =
     (case navigateToForm_result env of
        Threw error \<Rightarrow> adapterError env 0 [] [] [NavigateToForm] error
      | Returned foundForm \<Rightarrow>
          if \<not> foundForm then (formNotFound, [NavigateToForm])
          else (let shots = shot env ''form-loaded'';
                    acts = [NavigateToForm, TakeScreenshot ''form-loaded'', FillFormFields]
                in case fillFormFields_result env of
                     Threw error \<Rightarrow> adapterError env 0 (fillFormFields_failed env) shots acts error
                   | Returned filled \<Rightarrow> gh_afterFill env dryRun filled shots acts))"

text \<open>\<open>LeverAdapter.apply\<close>: custom questions are handled in \<open>apply\<close> itself, and there is
  no pre-submit scan.\<close>

definition lv_afterFill ::
  "adapter_env \<Rightarrow> bool \<Rightarrow> nat \<Rightarrow> string list \<Rightarrow> action list \<Rightarrow> ApplyResult \<times> action list"
where
  "lv_afterFill env dryRun filled shots acts =
     (let fieldsFailed' = fillFormFields_failed env;
          n = (if uploadResume_result env then filled + 1 else filled);
          acts1 = acts @ [UploadResume, HandleCoverLetter, HandleCustomQuestions]
      in case handleCustomQuestions_result env of
           Threw error \<Rightarrow> adapterError env n fieldsFailed' shots acts1 error
         | Returned extra \<Rightarrow>
             (let shots1 = shots @ shot env ''pre-submit'';
                  acts2 = acts1 @ [TakeScreenshot ''pre-submit'']
              in if dryRun then (dryRunComplete (n + extra) fieldsFailed' shots1, acts2)
                 else submitAndDetect lv_detectOutcome env (n + extra) fieldsFailed' shots1 acts2))"

definition lv_apply :: "adapter_env \<Rightarrow> bool \<Rightarrow> ApplyResult \<times> action list" where
  "lv_apply env dryRun =
     (case navigateToForm_result env of
        Threw error \<Rightarrow> adapterError env 0 [] [] [NavigateToForm] error
      | Returned foundForm \<Rightarrow>
          if \<not> foundForm then (formNotFound, [NavigateToForm])
          else (let shots = shot env ''form-loaded'';
                    acts = [NavigateToForm, TakeScreenshot ''form-loaded'', FillFormFields]
                in case fillFormFields_result env of
                     Threw error \<Rightarrow> adapterError env 0 (fillFormFields_failed env) shots acts error
                   | Returned filled \<Rightarrow> lv_afterFill env dryRun filled shots acts))"

subsection \<open>The order of the outcome checks, as the specification words it\<close>

text \<open>
  A rule is a condition on the page and the verdict (status and error code) it gives.
  The rules are tried in order and the first that applies decides; when none applies
  the verdict is \<open>succeeded\<close>.
\<close>

record outcome_rule =
  applies :: "outcome_page \<Rightarrow> bool"
  verdict :: "ApplyStatus \<times> string option"

definition outcomeRules :: "string list \<Rightarrow> string list \<Rightarrow> string list \<Rightarrow> outcome_rule list" where
  "outcomeRules successPhrases alreadyAppliedPhrases captchaPhrases =
     [\<lparr> applies = mentions successPhrases, verdict = (succeeded, None) \<rparr>,
      \<lparr> applies = mentions alreadyAppliedPhrases, verdict = (blocked, Some ''ALREADY_APPLIED'') \<rparr>,
      \<lparr> applies = (\<lambda>pg. errorTexts pg \<noteq> []), verdict = (failed, Some ''VALIDATION_ERROR'') \<rparr>,
      \<lparr> applies = mentions captchaPhrases, verdict = (blocked, Some ''CAPTCHA_DETECTED'') \<rparr>,
      \<lparr> applies = confirmationUrl, verdict = (succeeded, None) \<rparr>]"

definition firstApplicable :: "outcome_rule list \<Rightarrow> outcome_page \<Rightarrow> ApplyStatus \<times> string option" where
  "firstApplicable rules pg =
     (case find (\<lambda>r. applies r pg) rules of
        Some r \<Rightarrow> verdict r
      | None \<Rightarrow> (succeeded, None))"

definition validationDecides :: "string list \<Rightarrow> string list \<Rightarrow> outcome_page \<Rightarrow> bool" where
  "validationDecides successPhrases alreadyAppliedPhrases pg =
     (\<not> mentions successPhrases pg \<and> \<not> mentions alreadyAppliedPhrases pg \<and> errorTexts pg \<noteq> [])"

section \<open>Properties of the adapters\<close>

lemma errorTexts_nonempty: "errorTexts pg \<noteq> [] \<Longrightarrow> errorElements pg \<noteq> []"
  by (auto simp: errorTexts_def)

lemma length_errorTexts: "length (errorTexts pg) \<le> 3"
proof -
  have "length (errorTexts pg) \<le> length (take 3 (errorElements pg))"
    unfolding errorTexts_def by (metis length_filter_le length_map)
  then show ?thesis by simp
qed

lemma gh_verdict:
  "(status (gh_detectOutcome pg n ff shots), errorCode (gh_detectOutcome pg n ff shots))
     = firstApplicable (outcomeRules gh_successIndicators gh_alreadyAppliedIndicators gh_captchaIndicators) pg"
  using errorTexts_nonempty [of pg]
  by (auto simp: gh_detectOutcome_def firstApplicable_def outcomeRules_def baseResult_def)

lemma lv_verdict:
  "(status (lv_detectOutcome pg n ff shots), errorCode (lv_detectOutcome pg n ff shots))
     = firstApplicable (outcomeRules lv_successIndicators lv_alreadyAppliedIndicators lv_captchaIndicators) pg"
  using errorTexts_nonempty [of pg]
  by (auto simp: lv_detectOutcome_def firstApplicable_def outcomeRules_def baseResult_def)

lemma gh_validation_message:
  assumes "validationDecides gh_successIndicators gh_alreadyAppliedIndicators pg"
  shows "errorMessage (gh_detectOutcome pg n ff shots)
           = Some (''Form validation failed: '' @ join ''; '' (errorTexts pg))"
  using assms errorTexts_nonempty [of pg]
  by (simp add: validationDecides_def gh_detectOutcome_def baseResult_def)

lemma lv_validation_message:
  assumes "validationDecides lv_successIndicators lv_alreadyAppliedIndicators pg"
  shows "errorMessage (lv_detectOutcome pg n ff shots)
           = Some (''Form validation failed: '' @ join ''; '' (errorTexts pg))"
  using assms errorTexts_nonempty [of pg]
  by (simp add: validationDecides_def lv_detectOutcome_def baseResult_def)

text \<open>
  Claim C6, as the code has it. For each adapter, the status and error code
  \<open>detectOutcome\<close> returns are the verdict of the first rule that applies, in the order
  success phrasing, already-applied phrasing, validation errors, CAPTCHA phrasing,
  confirmation URL, and \<open>succeeded\<close> when none applies. (The Greenhouse adapter does not
  look at the URL; the URL rule and the default give the same verdict.) The validation
  rule applies when one of the first three elements the error selector matches,
  rendered or not, has a text that \<open>trim\<close> does not empty (a text of white space only,
  such as a lone no-break space, does not count). When it decides, the message is the
  prefix followed by those trimmed texts joined by \<open>; \<close>, at most three.
\<close>

theorem detectOutcome_order:
  "(status (gh_detectOutcome pg n ff shots), errorCode (gh_detectOutcome pg n ff shots))
     = firstApplicable (outcomeRules gh_successIndicators gh_alreadyAppliedIndicators gh_captchaIndicators) pg
   \<and> (status (lv_detectOutcome pg n ff shots), errorCode (lv_detectOutcome pg n ff shots))
     = firstApplicable (outcomeRules lv_successIndicators lv_alreadyAppliedIndicators lv_captchaIndicators) pg
   \<and> (validationDecides gh_successIndicators gh_alreadyAppliedIndicators pg \<longrightarrow>
        errorMessage (gh_detectOutcome pg n ff shots)
          = Some (''Form validation failed: '' @ join ''; '' (errorTexts pg)))
   \<and> (validationDecides lv_successIndicators lv_alreadyAppliedIndicators pg \<longrightarrow>
        errorMessage (lv_detectOutcome pg n ff shots)
          = Some (''Form validation failed: '' @ join ''; '' (errorTexts pg)))
   \<and> length (errorTexts pg) \<le> 3"
  using gh_verdict lv_verdict gh_validation_message lv_validation_message length_errorTexts
  by blast

definition invalidEmailPage :: outcome_page where
  "invalidEmailPage =
     \<lparr> bodyText = Some ''Apply for this job'',
       errorElements =
         [\<lparr> el_visible = True, el_text = Some '' Email is invalid '' \<rparr>,
          \<lparr> el_visible = True, el_text = None \<rparr>,
          \<lparr> el_visible = True, el_text = Some ''Phone is required'' \<rparr>,
          \<lparr> el_visible = True, el_text = Some ''Resume is required'' \<rparr>],
       currentUrl = ''https://jobs.lever.co/acme/3/apply'' \<rparr>"

lemma invalidEmailPage_texts: "errorTexts invalidEmailPage = [''Email is invalid'', ''Phone is required'']"
  by (simp add: errorTexts_def invalidEmailPage_def trim_simps orEmpty_def)

lemma invalidEmailPage_text: "pageText invalidEmailPage = ''apply for this job''"
  by (simp add: pageText_def invalidEmailPage_def orEmpty_def toLowerCase_def toLowerChar_def)

lemma invalidEmailPage_decides:
  "validationDecides gh_successIndicators gh_alreadyAppliedIndicators invalidEmailPage"
  "validationDecides lv_successIndicators lv_alreadyAppliedIndicators invalidEmailPage"
  by (simp_all add: validationDecides_def mentions_def invalidEmailPage_text invalidEmailPage_texts
      gh_successIndicators_def gh_alreadyAppliedIndicators_def
      lv_successIndicators_def lv_alreadyAppliedIndicators_def)

text \<open>Three more pages: one that says \<open>you have applied\<close>, which is a success phrase
  for Greenhouse and an already-applied phrase for Lever; one with a CAPTCHA; one whose
  only error element holds a no-break space.\<close>

definition youHaveAppliedPage :: outcome_page where
  "youHaveAppliedPage =
     \<lparr> bodyText = Some ''You have applied to this job.'', errorElements = [],
       currentUrl = ''https://jobs.lever.co/acme/3/apply'' \<rparr>"

definition captchaPage :: outcome_page where
  "captchaPage =
     \<lparr> bodyText = Some ''Please complete the CAPTCHA to continue'', errorElements = [],
       currentUrl = ''https://jobs.lever.co/acme/3/apply'' \<rparr>"

definition nbspErrorPage :: outcome_page where
  "nbspErrorPage =
     \<lparr> bodyText = Some ''Apply for this job'',
       errorElements = [\<lparr> el_visible = True, el_text = Some [CHR 0xC2, CHR 0xA0] \<rparr>],
       currentUrl = ''https://boards.greenhouse.io/acme/jobs/1'' \<rparr>"

lemma more_pageTexts:
  "pageText youHaveAppliedPage = ''you have applied to this job.''"
  "pageText captchaPage = ''please complete the captcha to continue''"
  "pageText nbspErrorPage = ''apply for this job''"
  by (simp_all add: pageText_def youHaveAppliedPage_def captchaPage_def nbspErrorPage_def orEmpty_def
      toLowerCase_def toLowerChar_def)

lemma more_errorTexts:
  "errorTexts youHaveAppliedPage = []" "errorTexts captchaPage = []" "errorTexts nbspErrorPage = []"
  by (simp_all add: errorTexts_def youHaveAppliedPage_def captchaPage_def nbspErrorPage_def orEmpty_def
      trim_nbsp)

lemma more_urls:
  "\<not> confirmationUrl youHaveAppliedPage" "\<not> confirmationUrl captchaPage"
  "\<not> confirmationUrl nbspErrorPage"
  by (simp_all add: confirmationUrl_def youHaveAppliedPage_def captchaPage_def nbspErrorPage_def)

lemma gh_more_verdicts:
  "firstApplicable (outcomeRules gh_successIndicators gh_alreadyAppliedIndicators gh_captchaIndicators)
     youHaveAppliedPage = (succeeded, None)"
  "firstApplicable (outcomeRules gh_successIndicators gh_alreadyAppliedIndicators gh_captchaIndicators)
     captchaPage = (blocked, Some ''CAPTCHA_DETECTED'')"
  "firstApplicable (outcomeRules gh_successIndicators gh_alreadyAppliedIndicators gh_captchaIndicators)
     nbspErrorPage = (succeeded, None)"
  by (simp_all add: firstApplicable_def outcomeRules_def mentions_def more_pageTexts more_errorTexts
      more_urls gh_successIndicators_def gh_alreadyAppliedIndicators_def gh_captchaIndicators_def)

lemma lv_more_verdicts:
  "firstApplicable (outcomeRules lv_successIndicators lv_alreadyAppliedIndicators lv_captchaIndicators)
     youHaveAppliedPage = (blocked, Some ''ALREADY_APPLIED'')"
  "firstApplicable (outcomeRules lv_successIndicators lv_alreadyAppliedIndicators lv_captchaIndicators)
     captchaPage = (blocked, Some ''CAPTCHA_DETECTED'')"
  "firstApplicable (outcomeRules lv_successIndicators lv_alreadyAppliedIndicators lv_captchaIndicators)
     nbspErrorPage = (succeeded, None)"
  by (simp_all add: firstApplicable_def outcomeRules_def mentions_def more_pageTexts more_errorTexts
      more_urls lv_successIndicators_def lv_alreadyAppliedIndicators_def lv_captchaIndicators_def)

text \<open>The theorem at work: on the page with readable validation errors, and on the
  three pages above.\<close>

theorem detectOutcome_order_witness:
  "errorMessage (gh_detectOutcome invalidEmailPage 4 [] [])
     = Some ''Form validation failed: Email is invalid; Phone is required''
   \<and> errorMessage (lv_detectOutcome invalidEmailPage 4 [] [])
     = Some ''Form validation failed: Email is invalid; Phone is required''
   \<and> (status (gh_detectOutcome youHaveAppliedPage 4 [] []), errorCode (gh_detectOutcome youHaveAppliedPage 4 [] []))
     = (succeeded, None)
   \<and> (status (lv_detectOutcome youHaveAppliedPage 4 [] []), errorCode (lv_detectOutcome youHaveAppliedPage 4 [] []))
     = (blocked, Some ''ALREADY_APPLIED'')
   \<and> (status (gh_detectOutcome captchaPage 4 [] []), errorCode (gh_detectOutcome captchaPage 4 [] []))
     = (blocked, Some ''CAPTCHA_DETECTED'')
   \<and> (status (lv_detectOutcome captchaPage 4 [] []), errorCode (lv_detectOutcome captchaPage 4 [] []))
     = (blocked, Some ''CAPTCHA_DETECTED'')
   \<and> (status (gh_detectOutcome nbspErrorPage 4 [] []), errorCode (gh_detectOutcome nbspErrorPage 4 [] []))
     = (succeeded, None)
   \<and> (status (lv_detectOutcome nbspErrorPage 4 [] []), errorCode (lv_detectOutcome nbspErrorPage 4 [] []))
     = (succeeded, None)"
proof -
  have A: "errorMessage (gh_detectOutcome invalidEmailPage 4 [] [])
       = Some ''Form validation failed: Email is invalid; Phone is required''
     \<and> errorMessage (lv_detectOutcome invalidEmailPage 4 [] [])
       = Some ''Form validation failed: Email is invalid; Phone is required''"
    using detectOutcome_order [of invalidEmailPage 4 "[]" "[]"] invalidEmailPage_decides
    by (simp add: invalidEmailPage_texts)
  note B = detectOutcome_order [of youHaveAppliedPage 4 "[]" "[]"]
  note C = detectOutcome_order [of captchaPage 4 "[]" "[]"]
  note D = detectOutcome_order [of nbspErrorPage 4 "[]" "[]"]
  show ?thesis
    using A B [THEN conjunct1] B [THEN conjunct2, THEN conjunct1]
      C [THEN conjunct1] C [THEN conjunct2, THEN conjunct1]
      D [THEN conjunct1] D [THEN conjunct2, THEN conjunct1]
    unfolding gh_more_verdicts lv_more_verdicts by blast
qed

text \<open>
  The claim as it was stated has the validation rule apply when a visible error
  element has a text that is not blank. Two pages tell the two apart. On the first,
  three blank error elements come before a visible one with a text: the code reads
  only the first three and returns \<open>succeeded\<close>. On the second, the only error element
  with a text is not rendered: the code returns \<open>failed\<close> with \<open>VALIDATION_ERROR\<close>.
\<close>

definition statedRules :: "string list \<Rightarrow> string list \<Rightarrow> string list \<Rightarrow> outcome_rule list" where
  "statedRules successPhrases alreadyAppliedPhrases captchaPhrases =
     [\<lparr> applies = mentions successPhrases, verdict = (succeeded, None) \<rparr>,
      \<lparr> applies = mentions alreadyAppliedPhrases, verdict = (blocked, Some ''ALREADY_APPLIED'') \<rparr>,
      \<lparr> applies = (\<lambda>pg. list_ex (\<lambda>el. el_visible el \<and> trim (orEmpty (el_text el)) \<noteq> []) (errorElements pg)),
        verdict = (failed, Some ''VALIDATION_ERROR'') \<rparr>,
      \<lparr> applies = mentions captchaPhrases, verdict = (blocked, Some ''CAPTCHA_DETECTED'') \<rparr>,
      \<lparr> applies = confirmationUrl, verdict = (succeeded, None) \<rparr>]"

definition lateErrorPage :: outcome_page where
  "lateErrorPage =
     \<lparr> bodyText = Some ''Apply for this job'',
       errorElements =
         [\<lparr> el_visible = True, el_text = Some [] \<rparr>,
          \<lparr> el_visible = True, el_text = Some [] \<rparr>,
          \<lparr> el_visible = True, el_text = Some [] \<rparr>,
          \<lparr> el_visible = True, el_text = Some ''Email is invalid'' \<rparr>],
       currentUrl = ''https://boards.greenhouse.io/acme/jobs/1'' \<rparr>"

definition hiddenErrorPage :: outcome_page where
  "hiddenErrorPage =
     \<lparr> bodyText = Some ''Apply for this job'',
       errorElements = [\<lparr> el_visible = False, el_text = Some ''This field is required'' \<rparr>],
       currentUrl = ''https://boards.greenhouse.io/acme/jobs/1'' \<rparr>"

lemma plain_pageText:
  "pageText lateErrorPage = ''apply for this job''" "pageText hiddenErrorPage = ''apply for this job''"
  by (simp_all add: pageText_def lateErrorPage_def hiddenErrorPage_def orEmpty_def toLowerCase_def
      toLowerChar_def)

lemma lateErrorPage_code: "status (gh_detectOutcome lateErrorPage 4 [] []) = succeeded"
proof -
  have "errorTexts lateErrorPage = []"
    by (simp add: errorTexts_def lateErrorPage_def trim_simps orEmpty_def)
  then show ?thesis
    by (simp add: gh_detectOutcome_def mentions_def plain_pageText baseResult_def
        gh_successIndicators_def gh_alreadyAppliedIndicators_def gh_captchaIndicators_def)
qed

lemma lateErrorPage_stated:
  "firstApplicable (statedRules gh_successIndicators gh_alreadyAppliedIndicators gh_captchaIndicators)
     lateErrorPage = (failed, Some ''VALIDATION_ERROR'')"
proof -
  have "list_ex (\<lambda>el. el_visible el \<and> trim (orEmpty (el_text el)) \<noteq> []) (errorElements lateErrorPage)"
    by (simp add: lateErrorPage_def trim_simps orEmpty_def)
  then show ?thesis
    by (simp add: firstApplicable_def statedRules_def mentions_def plain_pageText
        gh_successIndicators_def gh_alreadyAppliedIndicators_def)
qed

lemma hiddenErrorPage_code:
  "status (gh_detectOutcome hiddenErrorPage 4 [] []) = failed"
proof -
  have "errorTexts hiddenErrorPage = [''This field is required'']"
    by (simp add: errorTexts_def hiddenErrorPage_def trim_simps orEmpty_def)
  moreover have "errorElements hiddenErrorPage \<noteq> []"
    by (simp add: hiddenErrorPage_def)
  ultimately show ?thesis
    by (simp add: gh_detectOutcome_def mentions_def plain_pageText baseResult_def
        gh_successIndicators_def gh_alreadyAppliedIndicators_def)
qed

lemma hiddenErrorPage_stated:
  "firstApplicable (statedRules gh_successIndicators gh_alreadyAppliedIndicators gh_captchaIndicators)
     hiddenErrorPage = (succeeded, None)"
proof -
  have "\<not> list_ex (\<lambda>el. el_visible el \<and> trim (orEmpty (el_text el)) \<noteq> []) (errorElements hiddenErrorPage)"
    by (simp add: hiddenErrorPage_def)
  moreover have "\<not> confirmationUrl hiddenErrorPage"
    by (simp add: confirmationUrl_def hiddenErrorPage_def)
  ultimately show ?thesis
    by (simp add: firstApplicable_def statedRules_def mentions_def plain_pageText
        gh_successIndicators_def gh_alreadyAppliedIndicators_def gh_captchaIndicators_def)
qed

theorem detectOutcome_stated_counterexample:
  "status (gh_detectOutcome lateErrorPage 4 [] []) = succeeded
   \<and> firstApplicable (statedRules gh_successIndicators gh_alreadyAppliedIndicators gh_captchaIndicators)
       lateErrorPage = (failed, Some ''VALIDATION_ERROR'')
   \<and> status (gh_detectOutcome hiddenErrorPage 4 [] []) = failed
   \<and> firstApplicable (statedRules gh_successIndicators gh_alreadyAppliedIndicators gh_captchaIndicators)
       hiddenErrorPage = (succeeded, None)"
  using lateErrorPage_code lateErrorPage_stated hiddenErrorPage_code hiddenErrorPage_stated
  by simp

lemma ClickSubmit_adapterError:
  "ClickSubmit \<in> set (snd (adapterError env n ff shots acts error)) \<longleftrightarrow> ClickSubmit \<in> set acts"
  by (simp add: adapterError_def)

lemma status_adapterError:
  "status (fst (adapterError env n ff shots acts error)) = failed"
  "errorCode (fst (adapterError env n ff shots acts error)) = Some ''ADAPTER_ERROR''"
  by (simp_all add: adapterError_def baseResult_def)

text \<open>The Greenhouse gate: with \<open>dryRun\<close> off, a form found and a fill phase that
  returns, a scan that reports anything ends \<open>apply\<close> with \<open>needs_input\<close>, the scan's
  list as \<open>requiredInputs\<close>, and no click on the submit control.\<close>

lemma gh_gate:
  assumes "navigateToForm_result env = Returned True"
    and "fillFormFields_result env = Returned filled"
    and "detectUnfilledRequiredFields (formAtGate env) \<noteq> []"
  shows "status (fst (gh_apply env False)) = needs_input
         \<and> requiredInputs (fst (gh_apply env False)) = Some (detectUnfilledRequiredFields (formAtGate env))
         \<and> ClickSubmit \<notin> set (snd (gh_apply env False))"
  using assms
  by (simp add: gh_apply_def gh_afterFill_def needsInput_def baseResult_def Let_def)

text \<open>A form whose one required select still shows its placeholder, on a page where
  everything else works and the site answers a submission with a thank-you page.\<close>

definition authorizedSelect :: select_el where
  "authorizedSelect =
     \<lparr> sel_throws = False, sel_value = [], sel_selectedText = Some ''Select...'',
       sel_required = True,
       sel_containerText = Some ''Are you authorized to work in the US? *'',
       sel_options =
         [\<lparr> opt_text = Some ''Select...'', opt_value = Some [] \<rparr>,
          \<lparr> opt_text = Some ''Yes'', opt_value = Some ''1'' \<rparr>,
          \<lparr> opt_text = Some ''No'', opt_value = Some ''0'' \<rparr>] \<rparr>"

definition oneRequiredSelect :: form_state where
  "oneRequiredSelect =
     \<lparr> selects = Some [authorizedSelect], customDropdowns = Some [], textInputs = Some [] \<rparr>"

definition thankYouPage :: outcome_page where
  "thankYouPage =
     \<lparr> bodyText = Some ''Thank you for applying!'', errorElements = [],
       currentUrl = ''https://jobs.lever.co/acme/3/thanks'' \<rparr>"

definition unresolvedEnv :: adapter_env where
  "unresolvedEnv =
     \<lparr> navigateToForm_result = Returned True,
       fillFormFields_result = Returned 5,
       fillFormFields_failed = [],
       uploadResume_result = True,
       handleCustomQuestions_result = Returned 0,
       takeScreenshot = (\<lambda>name. None),
       formAtGate = oneRequiredSelect,
       submitButton = True,
       submitClickThrows = False,
       postSubmit = Returned thankYouPage \<rparr>"

lemma scan_oneRequiredSelect:
  "detectUnfilledRequiredFields oneRequiredSelect =
     [\<lparr> fieldName = ''Are you authorized to work in the US?'', fieldType = ft_select,
        options = Some [''Yes'', ''No''], required = True \<rparr>]"
  by (simp add: detectUnfilledRequiredFields_def oneRequiredSelect_def scanSelect_def
      authorizedSelect_def selectOptions_def keptOption_def fieldNameOf_def firstLine_def
      trim_simps orEmpty_def toLowerCase_def toLowerChar_def Let_def)

lemma thankYouPage_mentions: "mentions lv_successIndicators thankYouPage"
  by (simp add: mentions_def lv_successIndicators_def pageText_def thankYouPage_def orEmpty_def
      toLowerCase_def toLowerChar_def)

lemma gh_unresolvedEnv:
  "status (fst (gh_apply unresolvedEnv False)) = needs_input
   \<and> requiredInputs (fst (gh_apply unresolvedEnv False))
       = Some [\<lparr> fieldName = ''Are you authorized to work in the US?'', fieldType = ft_select,
                 options = Some [''Yes'', ''No''], required = True \<rparr>]
   \<and> ClickSubmit \<notin> set (snd (gh_apply unresolvedEnv False))"
  using gh_gate [of unresolvedEnv 5]
  by (simp add: unresolvedEnv_def scan_oneRequiredSelect)

text \<open>The Lever adapter never asks for input, whatever the form holds.\<close>

lemma lv_detectOutcome_status: "status (lv_detectOutcome pg n ff shots) \<noteq> needs_input"
  by (simp add: lv_detectOutcome_def baseResult_def)

lemma submitAndDetect_lv_status:
  "status (fst (submitAndDetect lv_detectOutcome env n ff shots acts)) \<noteq> needs_input"
  by (simp add: submitAndDetect_def submitFailed_def status_adapterError lv_detectOutcome_status
      baseResult_def Let_def split: outcome.splits)

lemma lv_never_needs_input: "status (fst (lv_apply env dry)) \<noteq> needs_input"
  by (simp add: lv_apply_def lv_afterFill_def status_adapterError submitAndDetect_lv_status
      formNotFound_def dryRunComplete_def baseResult_def Let_def split: outcome.splits)

text \<open>
  Claim C1. The pre-submit gate should hold for every site adapter. The Lever adapter
  has none: on the form above, where the scan of the Greenhouse adapter reports the
  one required select, \<open>LeverAdapter.apply\<close> with \<open>dryRun\<close> off clicks the submit control
  and returns \<open>succeeded\<close> with no \<open>requiredInputs\<close>.
\<close>

theorem lv_apply_submits_unresolved:
  "detectUnfilledRequiredFields (formAtGate unresolvedEnv) =
     [\<lparr> fieldName = ''Are you authorized to work in the US?'', fieldType = ft_select,
        options = Some [''Yes'', ''No''], required = True \<rparr>]
   \<and> status (fst (lv_apply unresolvedEnv False)) = succeeded
   \<and> requiredInputs (fst (lv_apply unresolvedEnv False)) = None
   \<and> ClickSubmit \<in> set (snd (lv_apply unresolvedEnv False))"
proof -
  have "detectUnfilledRequiredFields (formAtGate unresolvedEnv) =
     [\<lparr> fieldName = ''Are you authorized to work in the US?'', fieldType = ft_select,
        options = Some [''Yes'', ''No''], required = True \<rparr>]"
    by (simp add: unresolvedEnv_def scan_oneRequiredSelect)
  moreover have "lv_apply unresolvedEnv False =
      (lv_detectOutcome thankYouPage 6 [] [],
       [NavigateToForm, TakeScreenshot ''form-loaded'', FillFormFields, UploadResume,
        HandleCoverLetter, HandleCustomQuestions, TakeScreenshot ''pre-submit'', ClickSubmit,
        WaitForLoadState, TakeScreenshot ''post-submit'', DetectOutcome])"
    by (simp add: lv_apply_def lv_afterFill_def submitAndDetect_def unresolvedEnv_def shot_def Let_def)
  moreover have "status (lv_detectOutcome thankYouPage 6 [] []) = succeeded"
    "requiredInputs (lv_detectOutcome thankYouPage 6 [] []) = None"
    using thankYouPage_mentions by (simp_all add: lv_detectOutcome_def baseResult_def)
  ultimately show ?thesis by simp
qed

lemma gh_dry_run_no_submit:
  "status (fst (gh_apply env True)) \<noteq> needs_input \<and> ClickSubmit \<notin> set (snd (gh_apply env True))"
  by (auto simp: gh_apply_def gh_afterFill_def adapterError_def formNotFound_def dryRunComplete_def
      baseResult_def Let_def split: outcome.splits)

text \<open>
  Claim C10, as the code has it. In \<open>GreenhouseAdapter.apply\<close> with \<open>dryRun\<close> on and the
  form found: when the fill phase returns, the result is \<open>dry_run_complete\<close>, whatever
  the pre-submit scan would report; when the fill phase throws, the \<open>catch\<close> block
  returns \<open>failed\<close> with \<open>ADAPTER_ERROR\<close>. With \<open>dryRun\<close> on, \<open>apply\<close> never returns
  \<open>needs_input\<close> and never clicks the submit control.
\<close>

theorem gh_dry_run_before_gate:
  "(navigateToForm_result env = Returned True \<longrightarrow>
      (case fillFormFields_result env of
         Returned filled \<Rightarrow> status (fst (gh_apply env True)) = dry_run_complete
       | Threw error \<Rightarrow>
           status (fst (gh_apply env True)) = failed
           \<and> errorCode (fst (gh_apply env True)) = Some ''ADAPTER_ERROR''))
   \<and> status (fst (gh_apply env True)) \<noteq> needs_input
   \<and> ClickSubmit \<notin> set (snd (gh_apply env True))"
proof (intro conjI impI)
  assume "navigateToForm_result env = Returned True"
  then show "case fillFormFields_result env of
         Returned filled \<Rightarrow> status (fst (gh_apply env True)) = dry_run_complete
       | Threw error \<Rightarrow>
           status (fst (gh_apply env True)) = failed
           \<and> errorCode (fst (gh_apply env True)) = Some ''ADAPTER_ERROR''"
    by (simp add: gh_apply_def gh_afterFill_def status_adapterError dryRunComplete_def
        baseResult_def Let_def split: outcome.splits)
next
  show "status (fst (gh_apply env True)) \<noteq> needs_input"
    using gh_dry_run_no_submit by blast
next
  show "ClickSubmit \<notin> set (snd (gh_apply env True))"
    using gh_dry_run_no_submit by blast
qed

text \<open>The theorem at work on the form with the unresolved required select.\<close>

theorem gh_dry_run_before_gate_witness:
  "detectUnfilledRequiredFields (formAtGate unresolvedEnv) \<noteq> []
   \<and> status (fst (gh_apply unresolvedEnv True)) = dry_run_complete
   \<and> ClickSubmit \<notin> set (snd (gh_apply unresolvedEnv True))"
proof -
  have "detectUnfilledRequiredFields (formAtGate unresolvedEnv) \<noteq> []"
    by (simp add: unresolvedEnv_def scan_oneRequiredSelect)
  moreover have "navigateToForm_result unresolvedEnv = Returned True"
    "fillFormFields_result unresolvedEnv = Returned 5"
    by (simp_all add: unresolvedEnv_def)
  ultimately show ?thesis
    using gh_dry_run_before_gate [of unresolvedEnv] by simp
qed

text \<open>
  The claim as it was stated promises \<open>dry_run_complete\<close> whenever the form is found.
  When the page closes during the fill phase (\<open>page.$$\<close> in \<open>handleCustomQuestions\<close>
  rejects), the form was found and the result is \<open>failed\<close>.
\<close>

definition pageClosedEnv :: adapter_env where
  "pageClosedEnv =
     unresolvedEnv\<lparr>fillFormFields_result :=
       Threw (Error ''page.$$: Target page, context or browser has been closed'')\<rparr>"

theorem gh_dry_run_counterexample:
  "navigateToForm_result pageClosedEnv = Returned True
   \<and> status (fst (gh_apply pageClosedEnv True)) = failed
   \<and> status (fst (gh_apply pageClosedEnv True)) \<noteq> dry_run_complete"
  by (simp add: pageClosedEnv_def unresolvedEnv_def gh_apply_def adapterError_def baseResult_def
      shot_def Let_def)

section \<open>The orchestrator applyJob (services/worker/src/runner/applyJob.ts)\<close>

datatype adapter = Greenhouse | Lever

definition adapters :: "adapter list" where
  "adapters = [Greenhouse, Lever]"

definition adapterName :: "adapter \<Rightarrow> string" where
  "adapterName a = (case a of Greenhouse \<Rightarrow> ''Greenhouse'' | Lever \<Rightarrow> ''Lever'')"

text \<open>\<open>supports\<close>: a test on the host of the parsed URL, false when the URL does not parse.\<close>

definition supports :: "url_parser \<Rightarrow> adapter \<Rightarrow> string \<Rightarrow> bool" where
  "supports parse a u =
     (case parse u of
        None \<Rightarrow> False
      | Some parsed \<Rightarrow>
          (case a of
             Greenhouse \<Rightarrow>
               str_includes (host parsed) ''greenhouse.io''
               \<or> str_includes (host parsed) ''boards.eu.greenhouse.io''
           | Lever \<Rightarrow>
               str_includes (host parsed) ''lever.co''
               \<or> str_includes (host parsed) ''jobs.lever.co''))"

definition adapter_apply :: "adapter \<Rightarrow> adapter_env \<Rightarrow> bool \<Rightarrow> ApplyResult \<times> action list" where
  "adapter_apply a env dryRun = (case a of Greenhouse \<Rightarrow> gh_apply env dryRun | Lever \<Rightarrow> lv_apply env dryRun)"

record ProfileData =
  full_name :: "string option"
  email :: "string option"
  phone :: "string option"
  location_city :: "string option"
  location_state :: "string option"
  linkedin_url :: "string option"
  github_url :: "string option"
  work_authorization :: "string option"

record ApplyJobInput =
  runId :: string
  userId :: string
  jobUrl :: string
  atsType :: string
  resumeStoragePath :: string
  profile :: ProfileData
  dryRun :: bool

text \<open>
  What surrounds one call of \<open>applyJob\<close>: the three \<open>WORKER_CONFIG\<close> flags, whether the
  browser is Browserbase, what each awaited step does (return or throw), what the two
  calls of \<open>detectBlockingCondition\<close> find, the screenshot references the artifact
  collector holds on the blocked path and on the error path, the storage paths an
  upload turns the adapter's screenshots into, and the browser's behaviour during
  \<open>adapter.apply\<close>.
\<close>

record job_world =
  enableArtifacts :: bool
  uploadArtifactsFlag :: bool
  globalDryRun :: bool
  usingBrowserbase :: bool
  downloadResume_result :: "string outcome"
  createContext_result :: "unit outcome"
  createPage_result :: "unit outcome"
  goto_result :: "unit outcome"
  blockingCondition :: "ClassifiedError option"
  stillBlocked :: "ClassifiedError option"
  blockedArtifacts :: "string list outcome"
  uploadedScreenshots :: "string list \<Rightarrow> string list outcome"
  errorArtifacts :: "string list"
  closeContext_result :: "unit outcome"
  adapterEnv :: adapter_env

datatype job_event =
  RecordRunStart | RecordRunComplete string | RateLimitWait string | CreateArtifactCollector
  | MakeTempDir | DownloadResume | CreateContext | CreatePage | Goto string | WaitForStable
  | DetectBlockingCondition | WaitForAutoSolve | CaptureBlockedArtifacts | AdapterApply string
  | UploadArtifacts | CreateDebugPackage | CloseContext | RemoveTempDir | CleanupArtifacts

text \<open>The locals \<open>context\<close>, \<open>tempResumeDir\<close> and \<open>artifactCollector\<close> (set or null), and
  the events so far.\<close>

record job_state =
  hasContext :: bool
  hasTempDir :: bool
  hasCollector :: bool
  events :: "job_event list"

definition emit :: "job_event list \<Rightarrow> job_state \<Rightarrow> job_state" where
  "emit es st = st\<lparr>events := events st @ es\<rparr>"

definition statusName :: "ApplyStatus \<Rightarrow> string" where
  "statusName st =
     (case st of succeeded \<Rightarrow> ''succeeded'' | failed \<Rightarrow> ''failed'' | blocked \<Rightarrow> ''blocked''
      | dry_run_complete \<Rightarrow> ''dry_run_complete'' | needs_input \<Rightarrow> ''needs_input'')"

definition unsupportedAts :: "string \<Rightarrow> ApplyResult" where
  "unsupportedAts u =
     (baseResult failed 0 [] [])
       \<lparr>errorCode := Some ''UNSUPPORTED_ATS'',
        errorMessage := Some (''No adapter found for URL: '' @ u)\<rparr>"

text \<open>From \<open>adapter.apply\<close> to the \<open>return result\<close> of the \<open>try\<close> block.\<close>

definition runAdapter ::
  "job_world \<Rightarrow> ApplyJobInput \<Rightarrow> adapter \<Rightarrow> job_state \<Rightarrow> ApplyResult outcome \<times> job_state"
where
  "runAdapter w input a st =
     (let effectiveDryRun = (dryRun input \<or> globalDryRun w);
          result = fst (adapter_apply a (adapterEnv w) effectiveDryRun);
          st1 = emit [AdapterApply (adapterName a)] st
      in if hasCollector st1 \<and> uploadArtifactsFlag w
         then (case uploadedScreenshots w (screenshots result) of
                 Threw error \<Rightarrow> (Threw error, emit [UploadArtifacts] st1)
               | Returned paths \<Rightarrow>
                   (Returned (result\<lparr>screenshots := paths\<rparr>),
                    emit [UploadArtifacts, RecordRunComplete (statusName (status result))] st1))
         else (Returned result, emit [RecordRunComplete (statusName (status result))] st1))"

text \<open>The pre-flight check for blocking conditions and what follows it.\<close>

definition afterNavigation ::
  "job_world \<Rightarrow> ApplyJobInput \<Rightarrow> adapter \<Rightarrow> job_state \<Rightarrow> ApplyResult outcome \<times> job_state"
where
  "afterNavigation w input a st =
     (let st1 = emit ((if usingBrowserbase w then [WaitForStable] else []) @ [DetectBlockingCondition]) st
      in case blockingCondition w of
           None \<Rightarrow> runAdapter w input a st1
         | Some bc \<Rightarrow>
             if usingBrowserbase w \<and> code bc = ''CAPTCHA_DETECTED''
             then runAdapter w input a (emit [WaitForAutoSolve, DetectBlockingCondition] st1)
             else if hasCollector st1
             then (case blockedArtifacts w of
                     Threw error \<Rightarrow> (Threw error, emit [CaptureBlockedArtifacts] st1)
                   | Returned paths \<Rightarrow>
                       (Returned ((baseResult blocked 0 [] paths)
                                    \<lparr>errorCode := Some (code bc), errorMessage := Some (message bc)\<rparr>),
                        emit [CaptureBlockedArtifacts, RecordRunComplete ''blocked''] st1))
             else (Returned ((baseResult blocked 0 [] [])
                               \<lparr>errorCode := Some (code bc), errorMessage := Some (message bc)\<rparr>),
                   emit [RecordRunComplete ''blocked''] st1))"

text \<open>The \<open>try\<close> block once an adapter is found: rate limit, artifact collector, resume
  download, browser context and page, navigation.\<close>

definition withAdapter ::
  "job_world \<Rightarrow> ApplyJobInput \<Rightarrow> adapter \<Rightarrow> job_state \<Rightarrow> ApplyResult outcome \<times> job_state"
where
  "withAdapter w input a st =
     (let st1 = emit [RateLimitWait (jobUrl input)] st;
          st2 = (if enableArtifacts w then (emit [CreateArtifactCollector] st1)\<lparr>hasCollector := True\<rparr> else st1);
          st3 = (emit [MakeTempDir, DownloadResume] st2)\<lparr>hasTempDir := True\<rparr>
      in case downloadResume_result w of
           Threw error \<Rightarrow> (Threw error, st3)
         | Returned resumePath \<Rightarrow>
             (case createContext_result w of
                Threw error \<Rightarrow> (Threw error, emit [CreateContext] st3)
              | Returned u \<Rightarrow>
                  (let st4 = (emit [CreateContext, CreatePage] st3)\<lparr>hasContext := True\<rparr>
                   in case createPage_result w of
                        Threw error \<Rightarrow> (Threw error, st4)
                      | Returned u \<Rightarrow>
                          (case goto_result w of
                             Threw error \<Rightarrow> (Threw error, emit [Goto (jobUrl input)] st4)
                           | Returned u \<Rightarrow> afterNavigation w input a (emit [Goto (jobUrl input)] st4)))))"

definition tryBlock ::
  "url_parser \<Rightarrow> job_world \<Rightarrow> ApplyJobInput \<Rightarrow> job_state \<Rightarrow> ApplyResult outcome \<times> job_state"
where
  "tryBlock parse w input st =
     (case find (\<lambda>a. supports parse a (jobUrl input)) adapters of
        None \<Rightarrow> (Returned (unsupportedAts (jobUrl input)), emit [RecordRunComplete ''failed''] st)
      | Some a \<Rightarrow> withAdapter w input a st)"

definition catchBlock :: "job_world \<Rightarrow> jsval \<Rightarrow> job_state \<Rightarrow> ApplyResult \<times> job_state" where
  "catchBlock w error st =
     (let classified = classifyError error;
          st1 = (if hasCollector st \<and> hasContext st then emit [CreateDebugPackage] st else st)
      in ((baseResult failed 0 [] (if hasCollector st then errorArtifacts w else []))
            \<lparr>errorCode := Some (code classified), errorMessage := Some (message classified)\<rparr>,
          emit [RecordRunComplete ''failed''] st1))"

text \<open>The \<open>finally\<close> block: an error of \<open>context.close()\<close> replaces the result.\<close>

definition finallyBlock ::
  "job_world \<Rightarrow> ApplyResult \<Rightarrow> job_state \<Rightarrow> ApplyResult outcome \<times> job_event list"
where
  "finallyBlock w result st =
     (let cleanup = (if hasTempDir st then [RemoveTempDir] else [])
                    @ (if hasCollector st then [CleanupArtifacts] else [])
      in if hasContext st
         then (case closeContext_result w of
                 Threw error \<Rightarrow> (Threw error, events st @ [CloseContext])
               | Returned u \<Rightarrow> (Returned result, events st @ [CloseContext] @ cleanup))
         else (Returned result, events st @ cleanup))"

definition applyJob ::
  "url_parser \<Rightarrow> job_world \<Rightarrow> ApplyJobInput \<Rightarrow> ApplyResult outcome \<times> job_event list"
where
  "applyJob parse w input =
     (let st0 = \<lparr> hasContext = False, hasTempDir = False, hasCollector = False,
                  events = [RecordRunStart] \<rparr>
      in case tryBlock parse w input st0 of
           (Returned result, st) \<Rightarrow> finallyBlock w result st
         | (Threw error, st) \<Rightarrow>
             (case catchBlock w error st of (result, st1) \<Rightarrow> finallyBlock w result st1))"

definition browserWork :: "job_event \<Rightarrow> bool" where
  "browserWork e =
     (case e of
        CreateContext \<Rightarrow> True | CreatePage \<Rightarrow> True | Goto u \<Rightarrow> True | WaitForStable \<Rightarrow> True
      | DetectBlockingCondition \<Rightarrow> True | WaitForAutoSolve \<Rightarrow> True
      | CaptureBlockedArtifacts \<Rightarrow> True | AdapterApply n \<Rightarrow> True | CreateDebugPackage \<Rightarrow> True
      | CloseContext \<Rightarrow> True | _ \<Rightarrow> False)"

section \<open>Properties of applyJob\<close>

text \<open>
  Claim C9. When no registered adapter supports the job URL, \<open>applyJob\<close> returns
  \<open>failed\<close> with \<open>UNSUPPORTED_ATS\<close>, a filled count of 0 and no failed fields, and all it
  did was to record the start and the end of the run: no rate-limit wait, no download,
  no browser context, no page.
\<close>

theorem applyJob_unsupported:
  assumes "\<not> supports parse Greenhouse (jobUrl input)" and "\<not> supports parse Lever (jobUrl input)"
  shows "applyJob parse w input =
           (Returned \<lparr> status = failed, fieldsFilledCount = 0, fieldsFailed = [], screenshots = [],
                       errorCode = Some ''UNSUPPORTED_ATS'',
                       errorMessage = Some (''No adapter found for URL: '' @ jobUrl input),
                       confirmationMessage = None, requiredInputs = None \<rparr>,
            [RecordRunStart, RecordRunComplete ''failed''])
         \<and> \<not> list_ex browserWork (snd (applyJob parse w input))"
  using assms
  by (simp add: applyJob_def tryBlock_def adapters_def finallyBlock_def emit_def unsupportedAts_def
      baseResult_def browserWork_def Let_def)

definition workdayInput :: ApplyJobInput where
  "workdayInput =
     \<lparr> runId = ''run-1'', userId = ''user-1'',
       jobUrl = ''https://acme.workday.com/careers/job/42'', atsType = ''workday'',
       resumeStoragePath = ''user-1/resume.pdf'',
       profile = \<lparr> full_name = Some ''Ada Lovelace'', email = Some ''ada@example.org'', phone = None,
                   location_city = None, location_state = None, linkedin_url = None,
                   github_url = None, work_authorization = None \<rparr>,
       dryRun = False \<rparr>"

lemma workday_unsupported:
  "\<not> supports parse_url Greenhouse (jobUrl workdayInput)"
  "\<not> supports parse_url Lever (jobUrl workdayInput)"
  by (simp_all add: supports_def workdayInput_def url_eval_simps)

definition plainWorld :: job_world where
  "plainWorld =
     \<lparr> enableArtifacts = True, uploadArtifactsFlag = True, globalDryRun = False,
       usingBrowserbase = False,
       downloadResume_result = Returned ''/tmp/resume-x/resume.pdf'',
       createContext_result = Returned (), createPage_result = Returned (),
       goto_result = Returned (),
       blockingCondition = None, stillBlocked = None,
       blockedArtifacts = Returned [],
       uploadedScreenshots = (\<lambda>paths. Returned paths),
       errorArtifacts = [],
       closeContext_result = Returned (),
       adapterEnv = unresolvedEnv \<rparr>"

theorem applyJob_unsupported_witness:
  "fst (applyJob parse_url plainWorld workdayInput) =
     Returned \<lparr> status = failed, fieldsFilledCount = 0, fieldsFailed = [], screenshots = [],
                errorCode = Some ''UNSUPPORTED_ATS'',
                errorMessage = Some ''No adapter found for URL: https://acme.workday.com/careers/job/42'',
                confirmationMessage = None, requiredInputs = None \<rparr>
   \<and> snd (applyJob parse_url plainWorld workdayInput) = [RecordRunStart, RecordRunComplete ''failed'']"
  using applyJob_unsupported [OF workday_unsupported, of plainWorld]
  by (simp add: workdayInput_def)

section \<open>The task runner: processRun\<close>

text \<open>
  The database is the tables the runner touches, each a list of rows in table order.
  The client's calls resolve to a result object and do not throw, and a write that is
  issued takes effect. Times are milliseconds; \<open>now\<close> is the clock's reading during
  the call.
\<close>

record result_json =
  rj_fieldsFilledCount :: nat
  rj_fieldsFailed :: "string list"
  rj_confirmationMessage :: "string option"
  rj_screenshots :: "string list"
  rj_dryRun :: "bool option"

record run_row =
  run_id :: string
  user_id :: string
  job_target_id :: string
  resume_id :: string
  run_status :: string
  attempt :: nat
  dry_run :: "bool option"
  started_at :: "int option"
  finished_at :: "int option"
  error_code :: "string option"
  error_message :: "string option"
  required_inputs :: "RequiredInput list option"
  run_result_json :: "result_json option"

record job_target =
  job_id :: string
  job_url :: string
  ats_type :: string
  job_status :: string
  updated_at :: "int option"

record resume_row =
  resume_row_id :: string
  storage_path :: string

record profile_row =
  profile_user_id :: string
  profile_data :: ProfileData

record run_event =
  ev_run_id :: string
  ev_level :: string
  ev_message :: string
  ev_data :: "(nat \<times> string list) option"

record db =
  application_runs :: "run_row list"
  job_targets :: "job_target list"
  resumes :: "resume_row list"
  profiles :: "profile_row list"
  run_events :: "run_event list"

text \<open>\<open>.single()\<close>: the row when exactly one matches, otherwise an error (no data).\<close>

definition single :: "'a list \<Rightarrow> 'a option" where
  "single rows = (case rows of [r] \<Rightarrow> Some r | _ \<Rightarrow> None)"

text \<open>\<open>x || d\<close> for a string that may be undefined: the empty string is falsy too.\<close>

definition orDefault :: "string option \<Rightarrow> string \<Rightarrow> string" where
  "orDefault x d = (case x of None \<Rightarrow> d | Some s \<Rightarrow> if s = [] then d else s)"

definition logEvent :: "string \<Rightarrow> string \<Rightarrow> string \<Rightarrow> (nat \<times> string list) option \<Rightarrow> db \<Rightarrow> db" where
  "logEvent rid level msg data d =
     d\<lparr>run_events := run_events d @
        [\<lparr> ev_run_id = rid, ev_level = level, ev_message = msg, ev_data = data \<rparr>]\<rparr>"

text \<open>\<open>.update(...).eq('id', rid)\<close> on \<open>application_runs\<close>.\<close>

definition updateRun :: "string \<Rightarrow> (run_row \<Rightarrow> run_row) \<Rightarrow> db \<Rightarrow> db" where
  "updateRun rid change d =
     d\<lparr>application_runs := map (\<lambda>r. if run_id r = rid then change r else r) (application_runs d)\<rparr>"

definition failRun :: "string \<Rightarrow> string \<Rightarrow> string \<Rightarrow> int \<Rightarrow> db \<Rightarrow> db" where
  "failRun rid errorCode' errorMessage' now d =
     updateRun rid
       (\<lambda>r. r\<lparr>run_status := ''failed'', finished_at := Some now,
               error_code := Some errorCode', error_message := Some errorMessage'\<rparr>)
       (logEvent rid ''error'' errorMessage' None d)"

definition updateJobStatus :: "string \<Rightarrow> string \<Rightarrow> int \<Rightarrow> db \<Rightarrow> db" where
  "updateJobStatus jobTargetId st now d =
     d\<lparr>job_targets :=
        map (\<lambda>j. if job_id j = jobTargetId then j\<lparr>job_status := st, updated_at := Some now\<rparr> else j)
          (job_targets d)\<rparr>"

text \<open>The branches on \<open>result.status\<close> that persist the outcome.\<close>

definition persistResult :: "run_row \<Rightarrow> ApplyResult \<Rightarrow> int \<Rightarrow> db \<Rightarrow> db" where
  "persistResult run result now d =
     (if status result = succeeded \<or> status result = dry_run_complete then
        (let d1 = updateRun (run_id run)
                    (\<lambda>r. r\<lparr>run_status := ''succeeded'', finished_at := Some now,
                            run_result_json := Some
                              \<lparr> rj_fieldsFilledCount = fieldsFilledCount result,
                                rj_fieldsFailed = fieldsFailed result,
                                rj_confirmationMessage = confirmationMessage result,
                                rj_screenshots = screenshots result,
                                rj_dryRun = Some (dry_run run = Some True) \<rparr>\<rparr>) d
         in if dry_run run = Some True then d1
            else updateJobStatus (job_target_id run) ''applied'' now d1)
      else if status result = needs_input then
        updateJobStatus (job_target_id run) ''needs_input'' now
          (updateRun (run_id run)
             (\<lambda>r. r\<lparr>run_status := ''needs_input'', finished_at := None,
                     error_code := Some ''NEEDS_INPUT'',
                     error_message := Some (orDefault (errorMessage result)
                                              ''Waiting for user to answer custom questions''),
                     required_inputs := Some (case requiredInputs result of None \<Rightarrow> [] | Some rs \<Rightarrow> rs),
                     run_result_json := Some
                       \<lparr> rj_fieldsFilledCount = fieldsFilledCount result,
                         rj_fieldsFailed = fieldsFailed result,
                         rj_confirmationMessage = None,
                         rj_screenshots = screenshots result,
                         rj_dryRun = None \<rparr>\<rparr>) d)
      else if status result = blocked then
        updateJobStatus (job_target_id run) ''blocked'' now
          (updateRun (run_id run)
             (\<lambda>r. r\<lparr>run_status := ''failed'', finished_at := Some now,
                     error_code := Some (orDefault (errorCode result) ''BLOCKED''),
                     error_message := Some (orDefault (errorMessage result) ''Application blocked''),
                     run_result_json := Some
                       \<lparr> rj_fieldsFilledCount = fieldsFilledCount result,
                         rj_fieldsFailed = fieldsFailed result,
                         rj_confirmationMessage = None,
                         rj_screenshots = screenshots result,
                         rj_dryRun = None \<rparr>\<rparr>) d)
      else
        updateJobStatus (job_target_id run) ''failed'' now
          (failRun (run_id run) (orDefault (errorCode result) ''UNKNOWN'')
             (orDefault (errorMessage result) ''Application failed'') now d))"

text \<open>
  The \<open>try\<close> block of \<open>processRun\<close>. It ends normally (\<open>None\<close>) or throws, and leaves the
  database as it is at that moment. Two of its steps can throw: \<open>new URL(job.url)\<close> on
  a URL that does not parse, and \<open>applyJob\<close> (a parameter here: what the orchestrator
  does for this input).
\<close>

definition tryProcess ::
  "url_parser \<Rightarrow> (ApplyJobInput \<Rightarrow> ApplyResult outcome) \<Rightarrow> int \<Rightarrow> run_row \<Rightarrow> db \<Rightarrow> jsval option \<times> db"
where
  "tryProcess parse applyJob' now run d =
     (case single (filter (\<lambda>j. job_id j = job_target_id run) (job_targets d)) of
        None \<Rightarrow> (None, failRun (run_id run) ''JOB_NOT_FOUND'' ''Job target not found'' now d)
      | Some job \<Rightarrow>
     (case single (filter (\<lambda>r. resume_row_id r = resume_id run) (resumes d)) of
        None \<Rightarrow> (None, failRun (run_id run) ''RESUME_NOT_FOUND'' ''Resume not found'' now d)
      | Some resume \<Rightarrow>
     (case single (filter (\<lambda>p. profile_user_id p = user_id run) (profiles d)) of
        None \<Rightarrow> (None, failRun (run_id run) ''PROFILE_NOT_FOUND'' ''Profile not found'' now d)
      | Some prof \<Rightarrow>
     (let d1 = logEvent (run_id run) ''info'' (''Starting application to '' @ job_url job) None d
      in case parse (job_url job) of
           None \<Rightarrow> (Some (Error ''Invalid URL''), d1)
         | Some parsed \<Rightarrow>
             if map_of (searchParams parsed) ''fail'' = Some ''true''
             then (None, updateJobStatus (job_target_id run) ''failed'' now
                           (failRun (run_id run) ''TEST_FAILURE'' ''Intentional failure for testing'' now d1))
             else (case applyJob' \<lparr> runId = run_id run, userId = user_id run, jobUrl = job_url job,
                                    atsType = ats_type job, resumeStoragePath = storage_path resume,
                                    profile = profile_data prof, dryRun = (dry_run run = Some True) \<rparr> of
                     Threw error \<Rightarrow> (Some error, d1)
                   | Returned result \<Rightarrow>
                       (None, persistResult run result now
                                (logEvent (run_id run) ''info''
                                   (''Application result: '' @ statusName (status result))
                                   (Some (fieldsFilledCount result, fieldsFailed result)) d1)))))))"

text \<open>The \<open>catch\<close> block of \<open>processRun\<close>.\<close>

definition handleUnexpected :: "run_row \<Rightarrow> jsval \<Rightarrow> int \<Rightarrow> db \<Rightarrow> db" where
  "handleUnexpected run error now d =
     updateJobStatus (job_target_id run) ''failed'' now
       (failRun (run_id run) ''UNEXPECTED_ERROR'' (errorMessageOf error) now d)"

definition processRun ::
  "url_parser \<Rightarrow> (ApplyJobInput \<Rightarrow> ApplyResult outcome) \<Rightarrow> int \<Rightarrow> run_row \<Rightarrow> db \<Rightarrow> db"
where
  "processRun parse applyJob' now run d =
     (case tryProcess parse applyJob' now run d of
        (None, d') \<Rightarrow> d'
      | (Some error, d') \<Rightarrow> handleUnexpected run error now d')"

text \<open>The row of a run, and of a job target, by id.\<close>

definition findRun :: "db \<Rightarrow> string \<Rightarrow> run_row option" where
  "findRun d rid = find (\<lambda>r. run_id r = rid) (application_runs d)"

definition findJob :: "db \<Rightarrow> string \<Rightarrow> job_target option" where
  "findJob d jobTargetId = find (\<lambda>j. job_id j = jobTargetId) (job_targets d)"

section \<open>Properties of processRun\<close>

lemma find_map_update:
  assumes "\<And>x. key (change x) = key x"
  shows "find (\<lambda>x. key x = k) (map (\<lambda>x. if key x = k then change x else x) xs)
           = map_option change (find (\<lambda>x. key x = k) xs)"
  using assms by (induction xs) auto

lemma findRun_updateRun:
  assumes "\<And>r. run_id (change r) = run_id r"
  shows "findRun (updateRun rid change d) rid = map_option change (findRun d rid)"
  unfolding findRun_def updateRun_def using find_map_update [of run_id change rid] assms by simp

lemma findRun_logEvent [simp]: "findRun (logEvent rid level msg data d) k = findRun d k"
  by (simp add: findRun_def logEvent_def)

lemma findJob_logEvent [simp]: "findJob (logEvent rid level msg data d) k = findJob d k"
  by (simp add: findJob_def logEvent_def)

lemma findRun_updateJobStatus [simp]: "findRun (updateJobStatus j st now d) k = findRun d k"
  by (simp add: findRun_def updateJobStatus_def)

lemma findJob_updateRun [simp]: "findJob (updateRun rid change d) k = findJob d k"
  by (simp add: findJob_def updateRun_def)

lemma findJob_failRun [simp]: "findJob (failRun rid c m now d) k = findJob d k"
  by (simp add: failRun_def)

lemma findJob_updateJobStatus:
  "findJob (updateJobStatus j st now d) j
     = map_option (\<lambda>row. row\<lparr>job_status := st, updated_at := Some now\<rparr>) (findJob d j)"
  unfolding findJob_def updateJobStatus_def
  using find_map_update [of job_id "\<lambda>row. row\<lparr>job_status := st, updated_at := Some now\<rparr>" j]
  by simp

lemma findRun_failRun:
  "findRun (failRun rid c m now d) rid
     = map_option (\<lambda>r. r\<lparr>run_status := ''failed'', finished_at := Some now,
                          error_code := Some c, error_message := Some m\<rparr>) (findRun d rid)"
  unfolding failRun_def by (subst findRun_updateRun) simp_all

text \<open>The \<open>catch\<close> block, from any state of the database in which the run has a row.\<close>

lemma handleUnexpected_fails:
  assumes "findRun d (run_id run) = Some r"
  shows "findRun (handleUnexpected run error now d) (run_id run)
           = Some (r\<lparr>run_status := ''failed'', finished_at := Some now,
                     error_code := Some ''UNEXPECTED_ERROR'',
                     error_message := Some (errorMessageOf error)\<rparr>)"
  using assms by (simp add: handleUnexpected_def findRun_failRun)

lemma tryProcess_keeps_run:
  assumes "tryProcess parse applyJob' now run d = (Some error, d')"
  shows "findRun d' (run_id run) = findRun d (run_id run)"
  using assms
  by (auto simp: tryProcess_def Let_def split: option.splits if_splits outcome.splits)

lemma processRun_throws:
  assumes "tryProcess parse applyJob' now run d = (Some error, d')"
    and "findRun d (run_id run) = Some r"
  shows "findRun (processRun parse applyJob' now run d) (run_id run)
           = Some (r\<lparr>run_status := ''failed'', finished_at := Some now,
                     error_code := Some ''UNEXPECTED_ERROR'',
                     error_message := Some (errorMessageOf error)\<rparr>)"
proof -
  have "findRun d' (run_id run) = Some r"
    using tryProcess_keeps_run [OF assms(1)] assms(2) by simp
  then show ?thesis
    using assms(1) by (simp add: processRun_def handleUnexpected_fails)
qed

text \<open>
  Claim C2. Whatever state the \<open>try\<close> block has left the database in when the error
  arrives, the \<open>catch\<close> block turns the run's row to \<open>failed\<close> with the error code
  \<open>UNEXPECTED_ERROR\<close> and a \<open>finished_at\<close>; and when the \<open>try\<close> block of \<open>processRun\<close>
  throws, the run's row ends so, not \<open>running\<close>.
\<close>

theorem processRun_exception_fails:
  "(findRun d' (run_id run) = Some r' \<longrightarrow>
      (\<exists>r''. findRun (handleUnexpected run error now d') (run_id run) = Some r''
         \<and> run_status r'' = ''failed'' \<and> error_code r'' = Some ''UNEXPECTED_ERROR''
         \<and> finished_at r'' = Some now))
   \<and> (findRun d (run_id run) = Some r \<and> fst (tryProcess parse applyJob' now run d) = Some error \<longrightarrow>
      (\<exists>r''. findRun (processRun parse applyJob' now run d) (run_id run) = Some r''
         \<and> run_status r'' = ''failed'' \<and> error_code r'' = Some ''UNEXPECTED_ERROR''
         \<and> finished_at r'' = Some now \<and> run_status r'' \<noteq> ''running''))"
proof (intro conjI impI)
  assume "findRun d' (run_id run) = Some r'"
  then show "\<exists>r''. findRun (handleUnexpected run error now d') (run_id run) = Some r''
         \<and> run_status r'' = ''failed'' \<and> error_code r'' = Some ''UNEXPECTED_ERROR''
         \<and> finished_at r'' = Some now"
    by (simp add: handleUnexpected_fails)
next
  assume a: "findRun d (run_id run) = Some r \<and> fst (tryProcess parse applyJob' now run d) = Some error"
  then obtain d1 where "tryProcess parse applyJob' now run d = (Some error, d1)"
    by (cases "tryProcess parse applyJob' now run d") simp
  with a show "\<exists>r''. findRun (processRun parse applyJob' now run d) (run_id run) = Some r''
         \<and> run_status r'' = ''failed'' \<and> error_code r'' = Some ''UNEXPECTED_ERROR''
         \<and> finished_at r'' = Some now \<and> run_status r'' \<noteq> ''running''"
    by (simp add: processRun_throws)
qed

text \<open>A database with one running run, its job target, resume and profile.\<close>

definition aliceProfile :: ProfileData where
  "aliceProfile =
     \<lparr> full_name = Some ''Ada Lovelace'', email = Some ''ada@example.org'', phone = None,
       location_city = None, location_state = None, linkedin_url = None,
       github_url = None, work_authorization = None \<rparr>"

definition run1 :: run_row where
  "run1 =
     \<lparr> run_id = ''run-1'', user_id = ''user-1'', job_target_id = ''job-1'', resume_id = ''resume-1'',
       run_status = ''running'', attempt = 1, dry_run = None, started_at = Some 1000,
       finished_at = None, error_code = None, error_message = None, required_inputs = None,
       run_result_json = None \<rparr>"

definition db1 :: "string \<Rightarrow> db" where
  "db1 u =
     \<lparr> application_runs = [run1],
       job_targets = [\<lparr> job_id = ''job-1'', job_url = u, ats_type = ''greenhouse'',
                        job_status = ''applying'', updated_at = None \<rparr>],
       resumes = [\<lparr> resume_row_id = ''resume-1'', storage_path = ''user-1/resume.pdf'' \<rparr>],
       profiles = [\<lparr> profile_user_id = ''user-1'', profile_data = aliceProfile \<rparr>],
       run_events = [] \<rparr>"

definition crashingApplyJob :: "ApplyJobInput \<Rightarrow> ApplyResult outcome" where
  "crashingApplyJob input = Threw (Error ''browserContext.close: Target closed'')"

lemma db1_findRun: "findRun (db1 u) (run_id run1) = Some run1"
  by (simp add: findRun_def db1_def)

lemma tryProcess_bad_url:
  "fst (tryProcess parse_url crashingApplyJob 2000 run1 (db1 ''not a url'')) = Some (Error ''Invalid URL'')"
  by (simp add: tryProcess_def db1_def run1_def single_def url_eval_simps)

lemma tryProcess_crash:
  "fst (tryProcess parse_url crashingApplyJob 2000 run1 (db1 ''https://boards.greenhouse.io/acme/jobs/1''))
     = Some (Error ''browserContext.close: Target closed'')"
  by (simp add: tryProcess_def db1_def run1_def single_def crashingApplyJob_def url_eval_simps)

text \<open>The theorem at work: a job URL that does not parse, and an orchestrator that
  throws.\<close>

theorem processRun_exception_fails_witness:
  "(\<exists>r''. findRun (processRun parse_url crashingApplyJob 2000 run1 (db1 ''not a url'')) (run_id run1) = Some r''
       \<and> run_status r'' = ''failed'' \<and> error_code r'' = Some ''UNEXPECTED_ERROR''
       \<and> finished_at r'' = Some 2000 \<and> run_status r'' \<noteq> ''running'')
   \<and> (\<exists>r''. findRun (processRun parse_url crashingApplyJob 2000 run1
                 (db1 ''https://boards.greenhouse.io/acme/jobs/1'')) (run_id run1) = Some r''
       \<and> run_status r'' = ''failed'' \<and> error_code r'' = Some ''UNEXPECTED_ERROR''
       \<and> finished_at r'' = Some 2000 \<and> run_status r'' \<noteq> ''running'')"
proof -
  have A: "findRun (db1 ''not a url'') (run_id run1) = Some run1
      \<and> fst (tryProcess parse_url crashingApplyJob 2000 run1 (db1 ''not a url'')) = Some (Error ''Invalid URL'')"
    using db1_findRun tryProcess_bad_url by simp
  have B: "findRun (db1 ''https://boards.greenhouse.io/acme/jobs/1'') (run_id run1) = Some run1
      \<and> fst (tryProcess parse_url crashingApplyJob 2000 run1 (db1 ''https://boards.greenhouse.io/acme/jobs/1''))
          = Some (Error ''browserContext.close: Target closed'')"
    using db1_findRun tryProcess_crash by simp
  show ?thesis
    using processRun_exception_fails [where d = "db1 ''not a url''" and run = run1 and r = run1
        and parse = parse_url and applyJob' = crashingApplyJob and now = 2000
        and error = "Error ''Invalid URL''", THEN conjunct2, THEN mp, OF A]
      processRun_exception_fails [where d = "db1 ''https://boards.greenhouse.io/acme/jobs/1''"
        and run = run1 and r = run1
        and parse = parse_url and applyJob' = crashingApplyJob and now = 2000
        and error = "Error ''browserContext.close: Target closed''", THEN conjunct2, THEN mp, OF B]
    by blast
qed

lemma single_find:
  assumes "single (filter (\<lambda>x. key x = k) xs) = Some y"
  shows "find (\<lambda>x. key x = k) xs = Some y"
proof -
  from assms have "filter (\<lambda>x. key x = k) xs = [y]"
    by (auto simp: single_def split: list.splits)
  then show ?thesis
    by (induction xs) (auto split: if_splits)
qed

text \<open>What \<open>persistResult\<close> leaves in the run's row and the job target's row.\<close>

lemma persistResult_rows:
  assumes "findRun d (run_id run) = Some r" and "findJob d (job_target_id run) = Some j"
  shows "\<exists>r' j'. findRun (persistResult run result now d) (run_id run) = Some r'
           \<and> findJob (persistResult run result now d) (job_target_id run) = Some j'
           \<and> (case status result of
                 succeeded \<Rightarrow>
                   run_status r' = ''succeeded'' \<and> finished_at r' = Some now
                   \<and> map_option rj_dryRun (run_result_json r') = Some (Some (dry_run run = Some True))
                   \<and> job_status j' = (if dry_run run = Some True then job_status j else ''applied'')
               | dry_run_complete \<Rightarrow>
                   run_status r' = ''succeeded'' \<and> finished_at r' = Some now
                   \<and> map_option rj_dryRun (run_result_json r') = Some (Some (dry_run run = Some True))
                   \<and> job_status j' = (if dry_run run = Some True then job_status j else ''applied'')
               | needs_input \<Rightarrow>
                   run_status r' = ''needs_input'' \<and> finished_at r' = None
                   \<and> error_code r' = Some ''NEEDS_INPUT''
                   \<and> required_inputs r' = Some (case requiredInputs result of None \<Rightarrow> [] | Some rs \<Rightarrow> rs)
                   \<and> job_status j' = ''needs_input''
               | blocked \<Rightarrow>
                   run_status r' = ''failed'' \<and> finished_at r' = Some now
                   \<and> error_code r' = Some (case errorCode result of
                                             None \<Rightarrow> ''BLOCKED''
                                           | Some c \<Rightarrow> if c = [] then ''BLOCKED'' else c)
                   \<and> job_status j' = ''blocked''
               | failed \<Rightarrow>
                   run_status r' = ''failed'' \<and> finished_at r' = Some now
                   \<and> error_code r' = Some (case errorCode result of
                                             None \<Rightarrow> ''UNKNOWN''
                                           | Some c \<Rightarrow> if c = [] then ''UNKNOWN'' else c)
                   \<and> job_status j' = ''failed'')"
proof (cases "status result")
  case succeeded
  with assms show ?thesis
    by (simp add: persistResult_def findRun_updateRun findJob_updateJobStatus Let_def)
next
  case failed
  with assms show ?thesis
    by (simp add: persistResult_def findRun_failRun findJob_updateJobStatus orDefault_def)
next
  case blocked
  with assms show ?thesis
    by (simp add: persistResult_def findRun_updateRun findJob_updateJobStatus orDefault_def)
next
  case dry_run_complete
  with assms show ?thesis
    by (simp add: persistResult_def findRun_updateRun findJob_updateJobStatus Let_def)
next
  case needs_input
  with assms show ?thesis
    by (simp add: persistResult_def findRun_updateRun findJob_updateJobStatus)
qed

lemma processRun_returns:
  assumes "single (filter (\<lambda>j. job_id j = job_target_id run) (job_targets d)) = Some job"
    and "single (filter (\<lambda>r. resume_row_id r = resume_id run) (resumes d)) = Some resume"
    and "single (filter (\<lambda>p. profile_user_id p = user_id run) (profiles d)) = Some prof"
    and "parse (job_url job) = Some parsed"
    and "map_of (searchParams parsed) ''fail'' \<noteq> Some ''true''"
    and "applyJob' \<lparr> runId = run_id run, userId = user_id run, jobUrl = job_url job,
                      atsType = ats_type job, resumeStoragePath = storage_path resume,
                      profile = profile_data prof, dryRun = (dry_run run = Some True) \<rparr>
           = Returned result"
  shows "processRun parse applyJob' now run d =
           persistResult run result now
             (logEvent (run_id run) ''info'' (''Application result: '' @ statusName (status result))
                (Some (fieldsFilledCount result, fieldsFailed result))
                (logEvent (run_id run) ''info'' (''Starting application to '' @ job_url job) None d))"
  using assms by (simp add: processRun_def tryProcess_def Let_def)

text \<open>
  What \<open>processRun\<close> leaves in the two rows when the run's job target, resume and
  profile are found, the job URL parses and does not ask for the test failure, and the
  orchestrator returns \<open>result\<close>. The test that guards the job target's \<open>applied\<close> is
  on the \<open>dry_run\<close> field of the run's row, not on the result.
\<close>

lemma processRun_rows:
  assumes "findRun d (run_id run) = Some r"
    and "single (filter (\<lambda>j. job_id j = job_target_id run) (job_targets d)) = Some job"
    and "single (filter (\<lambda>r. resume_row_id r = resume_id run) (resumes d)) = Some resume"
    and "single (filter (\<lambda>p. profile_user_id p = user_id run) (profiles d)) = Some prof"
    and "parse (job_url job) = Some parsed"
    and "map_of (searchParams parsed) ''fail'' \<noteq> Some ''true''"
    and "applyJob' \<lparr> runId = run_id run, userId = user_id run, jobUrl = job_url job,
                      atsType = ats_type job, resumeStoragePath = storage_path resume,
                      profile = profile_data prof, dryRun = (dry_run run = Some True) \<rparr>
           = Returned result"
  shows "\<exists>r' j'. findRun (processRun parse applyJob' now run d) (run_id run) = Some r'
           \<and> findJob (processRun parse applyJob' now run d) (job_target_id run) = Some j'
           \<and> (case status result of
                 succeeded \<Rightarrow>
                   run_status r' = ''succeeded'' \<and> finished_at r' = Some now
                   \<and> map_option rj_dryRun (run_result_json r') = Some (Some (dry_run run = Some True))
                   \<and> job_status j' = (if dry_run run = Some True then job_status job else ''applied'')
               | dry_run_complete \<Rightarrow>
                   run_status r' = ''succeeded'' \<and> finished_at r' = Some now
                   \<and> map_option rj_dryRun (run_result_json r') = Some (Some (dry_run run = Some True))
                   \<and> job_status j' = (if dry_run run = Some True then job_status job else ''applied'')
               | needs_input \<Rightarrow>
                   run_status r' = ''needs_input'' \<and> finished_at r' = None
                   \<and> error_code r' = Some ''NEEDS_INPUT''
                   \<and> required_inputs r' = Some (case requiredInputs result of None \<Rightarrow> [] | Some rs \<Rightarrow> rs)
                   \<and> job_status j' = ''needs_input''
               | blocked \<Rightarrow>
                   run_status r' = ''failed'' \<and> finished_at r' = Some now
                   \<and> error_code r' = Some (case errorCode result of
                                             None \<Rightarrow> ''BLOCKED''
                                           | Some c \<Rightarrow> if c = [] then ''BLOCKED'' else c)
                   \<and> job_status j' = ''blocked''
               | failed \<Rightarrow>
                   run_status r' = ''failed'' \<and> finished_at r' = Some now
                   \<and> error_code r' = Some (case errorCode result of
                                             None \<Rightarrow> ''UNKNOWN''
                                           | Some c \<Rightarrow> if c = [] then ''UNKNOWN'' else c)
                   \<and> job_status j' = ''failed'')"
proof -
  let ?d = "logEvent (run_id run) ''info'' (''Application result: '' @ statusName (status result))
                (Some (fieldsFilledCount result, fieldsFailed result))
                (logEvent (run_id run) ''info'' (''Starting application to '' @ job_url job) None d)"
  have eq: "processRun parse applyJob' now run d = persistResult run result now ?d"
    using assms(2-7) by (rule processRun_returns)
  have j: "findJob d (job_target_id run) = Some job"
    unfolding findJob_def using single_find [of job_id "job_target_id run" "job_targets d" job] assms(2)
    by simp
  have "findRun ?d (run_id run) = Some r" "findJob ?d (job_target_id run) = Some job"
    using assms(1) j by simp_all
  from persistResult_rows [OF this, of result now] show ?thesis
    unfolding eq .
qed

text \<open>The orchestrator of the model on a Greenhouse job whose form keeps one required
  select unresolved: the run is paused.\<close>

definition greenhouseInput :: ApplyJobInput where
  "greenhouseInput =
     \<lparr> runId = ''run-1'', userId = ''user-1'',
       jobUrl = ''https://boards.greenhouse.io/acme/jobs/1'', atsType = ''greenhouse'',
       resumeStoragePath = ''user-1/resume.pdf'', profile = aliceProfile, dryRun = False \<rparr>"

definition pausedResult :: ApplyResult where
  "pausedResult =
     needsInput 6 [] []
       [\<lparr> fieldName = ''Are you authorized to work in the US?'', fieldType = ft_select,
          options = Some [''Yes'', ''No''], required = True \<rparr>]"

lemma supports_greenhouse: "supports parse_url Greenhouse ''https://boards.greenhouse.io/acme/jobs/1''"
  by (simp add: supports_def url_eval_simps)

lemma gh_apply_unresolved: "fst (gh_apply unresolvedEnv False) = pausedResult"
  by (simp add: gh_apply_def gh_afterFill_def unresolvedEnv_def scan_oneRequiredSelect shot_def
      pausedResult_def Let_def)

lemma applyJob_greenhouse: "fst (applyJob parse_url plainWorld greenhouseInput) = Returned pausedResult"
proof -
  have "find (\<lambda>a. supports parse_url a (jobUrl greenhouseInput)) adapters = Some Greenhouse"
    using supports_greenhouse by (simp add: adapters_def greenhouseInput_def)
  moreover have "fst (adapter_apply Greenhouse (adapterEnv plainWorld) False) = pausedResult"
    using gh_apply_unresolved by (simp add: adapter_apply_def plainWorld_def)
  moreover have "screenshots pausedResult = []"
    by (simp add: pausedResult_def needsInput_def baseResult_def)
  ultimately show ?thesis
    by (simp add: applyJob_def tryBlock_def withAdapter_def afterNavigation_def runAdapter_def
        finallyBlock_def emit_def plainWorld_def greenhouseInput_def Let_def)
qed

lemma processRun_paused:
  "\<exists>r' j'.
     findRun (processRun parse_url (\<lambda>input. fst (applyJob parse_url plainWorld input)) 2000 run1
        (db1 ''https://boards.greenhouse.io/acme/jobs/1'')) ''run-1'' = Some r'
     \<and> findJob (processRun parse_url (\<lambda>input. fst (applyJob parse_url plainWorld input)) 2000 run1
        (db1 ''https://boards.greenhouse.io/acme/jobs/1'')) ''job-1'' = Some j'
     \<and> run_status r' = ''needs_input'' \<and> finished_at r' = None
     \<and> error_code r' = Some ''NEEDS_INPUT''
     \<and> required_inputs r' =
          Some [\<lparr> fieldName = ''Are you authorized to work in the US?'', fieldType = ft_select,
                  options = Some [''Yes'', ''No''], required = True \<rparr>]
     \<and> job_status j' = ''needs_input''"
proof -
  let ?d = "db1 ''https://boards.greenhouse.io/acme/jobs/1''"
  let ?job = "\<lparr> job_id = ''job-1'', job_url = ''https://boards.greenhouse.io/acme/jobs/1'',
                 ats_type = ''greenhouse'', job_status = ''applying'', updated_at = None \<rparr>"
  let ?resume = "\<lparr> resume_row_id = ''resume-1'', storage_path = ''user-1/resume.pdf'' \<rparr>"
  let ?prof = "\<lparr> profile_user_id = ''user-1'', profile_data = aliceProfile \<rparr>"
  have h1: "findRun ?d (run_id run1) = Some run1" by (rule db1_findRun)
  have h2: "single (filter (\<lambda>j. job_id j = job_target_id run1) (job_targets ?d)) = Some ?job"
    by (simp add: db1_def run1_def single_def)
  have h3: "single (filter (\<lambda>r. resume_row_id r = resume_id run1) (resumes ?d)) = Some ?resume"
    by (simp add: db1_def run1_def single_def)
  have h4: "single (filter (\<lambda>p. profile_user_id p = user_id run1) (profiles ?d)) = Some ?prof"
    by (simp add: db1_def run1_def single_def)
  obtain parsed where h5: "parse_url (job_url ?job) = Some parsed"
    and h6: "map_of (searchParams parsed) ''fail'' \<noteq> Some ''true''"
    by (simp add: url_eval_simps)
  have h7: "(\<lambda>input. fst (applyJob parse_url plainWorld input))
              \<lparr> runId = run_id run1, userId = user_id run1, jobUrl = job_url ?job,
                atsType = ats_type ?job, resumeStoragePath = storage_path ?resume,
                profile = profile_data ?prof, dryRun = (dry_run run1 = Some True) \<rparr>
            = Returned pausedResult"
    using applyJob_greenhouse by (simp add: greenhouseInput_def run1_def)
  have ids: "run_id run1 = ''run-1''" "job_target_id run1 = ''job-1''"
    by (simp_all add: run1_def)
  have res: "status pausedResult = needs_input"
    "requiredInputs pausedResult =
       Some [\<lparr> fieldName = ''Are you authorized to work in the US?'', fieldType = ft_select,
               options = Some [''Yes'', ''No''], required = True \<rparr>]"
    by (simp_all add: pausedResult_def needsInput_def baseResult_def)
  have "\<exists>r' j'.
      findRun (processRun parse_url (\<lambda>input. fst (applyJob parse_url plainWorld input)) 2000 run1 ?d)
        (run_id run1) = Some r'
      \<and> findJob (processRun parse_url (\<lambda>input. fst (applyJob parse_url plainWorld input)) 2000 run1 ?d)
        (job_target_id run1) = Some j'
      \<and> (case status pausedResult of
            succeeded \<Rightarrow>
              run_status r' = ''succeeded'' \<and> finished_at r' = Some 2000
              \<and> map_option rj_dryRun (run_result_json r') = Some (Some (dry_run run1 = Some True))
              \<and> job_status j' = (if dry_run run1 = Some True then job_status ?job else ''applied'')
          | dry_run_complete \<Rightarrow>
              run_status r' = ''succeeded'' \<and> finished_at r' = Some 2000
              \<and> map_option rj_dryRun (run_result_json r') = Some (Some (dry_run run1 = Some True))
              \<and> job_status j' = (if dry_run run1 = Some True then job_status ?job else ''applied'')
          | needs_input \<Rightarrow>
              run_status r' = ''needs_input'' \<and> finished_at r' = None
              \<and> error_code r' = Some ''NEEDS_INPUT''
              \<and> required_inputs r' = Some (case requiredInputs pausedResult of None \<Rightarrow> [] | Some rs \<Rightarrow> rs)
              \<and> job_status j' = ''needs_input''
          | blocked \<Rightarrow>
              run_status r' = ''failed'' \<and> finished_at r' = Some 2000
              \<and> error_code r' = Some (case errorCode pausedResult of
                                        None \<Rightarrow> ''BLOCKED''
                                      | Some c \<Rightarrow> if c = [] then ''BLOCKED'' else c)
              \<and> job_status j' = ''blocked''
          | failed \<Rightarrow>
              run_status r' = ''failed'' \<and> finished_at r' = Some 2000
              \<and> error_code r' = Some (case errorCode pausedResult of
                                        None \<Rightarrow> ''UNKNOWN''
                                      | Some c \<Rightarrow> if c = [] then ''UNKNOWN'' else c)
              \<and> job_status j' = ''failed'')"
    using h1 h2 h3 h4 h5 h6 h7
    by (rule processRun_rows [where parse = parse_url
          and applyJob' = "\<lambda>input. fst (applyJob parse_url plainWorld input)"
          and d = "?d" and run = run1 and r = run1 and job = "?job" and resume = "?resume"
          and prof = "?prof" and parsed = parsed and result = pausedResult and now = 2000])
  then show ?thesis
    unfolding ids by (simp add: res)
qed

text \<open>The same world with \<open>WORKER_DRY_RUN=true\<close>, and the result of the dry run
  there.\<close>

definition dryRunWorld :: job_world where
  "dryRunWorld = plainWorld\<lparr>globalDryRun := True\<rparr>"

definition filledResult :: ApplyResult where
  "filledResult =
     \<lparr> status = dry_run_complete, fieldsFilledCount = 6, fieldsFailed = [], screenshots = [],
       errorCode = None, errorMessage = None,
       confirmationMessage = Some ''Dry run completed - form filled but not submitted'',
       requiredInputs = None \<rparr>"

lemma gh_apply_dry_run:
  "gh_apply unresolvedEnv True =
     (filledResult,
      [NavigateToForm, TakeScreenshot ''form-loaded'', FillFormFields, UploadResume,
       HandleCoverLetter, TakeScreenshot ''pre-submit''])"
  by (simp add: gh_apply_def gh_afterFill_def unresolvedEnv_def shot_def dryRunComplete_def
      baseResult_def filledResult_def Let_def)

lemma applyJob_global_dry_run:
  "fst (applyJob parse_url dryRunWorld greenhouseInput) = Returned filledResult"
proof -
  have "find (\<lambda>a. supports parse_url a (jobUrl greenhouseInput)) adapters = Some Greenhouse"
    using supports_greenhouse by (simp add: adapters_def greenhouseInput_def)
  moreover have "fst (adapter_apply Greenhouse (adapterEnv dryRunWorld) True) = filledResult"
    using gh_apply_dry_run by (simp add: adapter_apply_def dryRunWorld_def plainWorld_def)
  moreover have "screenshots filledResult = []"
    by (simp add: filledResult_def)
  ultimately show ?thesis
    by (simp add: applyJob_def tryBlock_def withAdapter_def afterNavigation_def runAdapter_def
        finallyBlock_def emit_def dryRunWorld_def plainWorld_def greenhouseInput_def Let_def)
qed

text \<open>
  Claim C3. The job target is to be set to \<open>applied\<close> when an application went out, and
  left alone for a dry run. The guard in \<open>processRun\<close> reads the run row's \<open>dry_run\<close>
  field (\<open>if (!run.dry_run)\<close>), which nothing in the repository writes: the table
  \<open>application_runs\<close> has no such column and the insert of a run sets none, so a claimed
  run carries none. The dry run the worker does perform is the global one
  (\<open>WORKER_DRY_RUN=true\<close>), which only \<open>applyJob\<close> consults. On the Greenhouse job
  above with the global dry run on, the adapter fills the form, does not click the
  submit control and returns \<open>dry_run_complete\<close>; \<open>processRun\<close> then records the run as
  \<open>succeeded\<close> with \<open>dryRun: false\<close> in its result payload, and moves the job target
  from \<open>applying\<close> to \<open>applied\<close>.
\<close>

theorem processRun_global_dry_run_applied:
  "dry_run run1 = None
   \<and> findJob (db1 ''https://boards.greenhouse.io/acme/jobs/1'') ''job-1''
       = Some \<lparr> job_id = ''job-1'', job_url = ''https://boards.greenhouse.io/acme/jobs/1'',
                ats_type = ''greenhouse'', job_status = ''applying'', updated_at = None \<rparr>
   \<and> fst (applyJob parse_url dryRunWorld
             \<lparr> runId = ''run-1'', userId = ''user-1'',
               jobUrl = ''https://boards.greenhouse.io/acme/jobs/1'', atsType = ''greenhouse'',
               resumeStoragePath = ''user-1/resume.pdf'', profile = aliceProfile, dryRun = False \<rparr>)
       = Returned
           \<lparr> status = dry_run_complete, fieldsFilledCount = 6, fieldsFailed = [], screenshots = [],
             errorCode = None, errorMessage = None,
             confirmationMessage = Some ''Dry run completed - form filled but not submitted'',
             requiredInputs = None \<rparr>
   \<and> ClickSubmit \<notin> set (snd (adapter_apply Greenhouse (adapterEnv dryRunWorld) True))
   \<and> (\<exists>r' j'.
        findRun (processRun parse_url (\<lambda>input. fst (applyJob parse_url dryRunWorld input)) 2000 run1
           (db1 ''https://boards.greenhouse.io/acme/jobs/1'')) ''run-1'' = Some r'
        \<and> findJob (processRun parse_url (\<lambda>input. fst (applyJob parse_url dryRunWorld input)) 2000 run1
           (db1 ''https://boards.greenhouse.io/acme/jobs/1'')) ''job-1'' = Some j'
        \<and> run_status r' = ''succeeded'' \<and> finished_at r' = Some 2000
        \<and> map_option rj_dryRun (run_result_json r') = Some (Some False)
        \<and> job_status j' = ''applied'' \<and> updated_at j' = Some 2000)"
proof -
  let ?d = "db1 ''https://boards.greenhouse.io/acme/jobs/1''"
  let ?job = "\<lparr> job_id = ''job-1'', job_url = ''https://boards.greenhouse.io/acme/jobs/1'',
                 ats_type = ''greenhouse'', job_status = ''applying'', updated_at = None \<rparr>"
  let ?run = "processRun parse_url (\<lambda>input. fst (applyJob parse_url dryRunWorld input)) 2000 run1 ?d"
  have c1: "dry_run run1 = None"
    by (simp add: run1_def)
  have c2: "findJob ?d ''job-1'' = Some ?job"
    by (simp add: findJob_def db1_def)
  have c3: "fst (applyJob parse_url dryRunWorld
             \<lparr> runId = ''run-1'', userId = ''user-1'',
               jobUrl = ''https://boards.greenhouse.io/acme/jobs/1'', atsType = ''greenhouse'',
               resumeStoragePath = ''user-1/resume.pdf'', profile = aliceProfile, dryRun = False \<rparr>)
       = Returned
           \<lparr> status = dry_run_complete, fieldsFilledCount = 6, fieldsFailed = [], screenshots = [],
             errorCode = None, errorMessage = None,
             confirmationMessage = Some ''Dry run completed - form filled but not submitted'',
             requiredInputs = None \<rparr>"
    using applyJob_global_dry_run by (simp add: greenhouseInput_def filledResult_def)
  have c4: "ClickSubmit \<notin> set (snd (adapter_apply Greenhouse (adapterEnv dryRunWorld) True))"
    by (simp add: adapter_apply_def dryRunWorld_def plainWorld_def gh_apply_dry_run)
  have eq: "?run =
      persistResult run1 filledResult 2000
        (logEvent (run_id run1) ''info'' (''Application result: '' @ statusName (status filledResult))
           (Some (fieldsFilledCount filledResult, fieldsFailed filledResult))
           (logEvent (run_id run1) ''info'' (''Starting application to '' @ job_url ?job) None ?d))"
    using applyJob_global_dry_run
    by (simp add: processRun_def tryProcess_def db1_def run1_def single_def greenhouseInput_def
        url_eval_simps)
  have r: "findRun ?run ''run-1'' =
      Some (run1\<lparr>run_status := ''succeeded'', finished_at := Some 2000,
                 run_result_json := Some
                   \<lparr> rj_fieldsFilledCount = 6, rj_fieldsFailed = [],
                     rj_confirmationMessage = Some ''Dry run completed - form filled but not submitted'',
                     rj_screenshots = [], rj_dryRun = Some False \<rparr>\<rparr>)"
    unfolding eq
    by (simp add: persistResult_def filledResult_def findRun_def updateRun_def updateJobStatus_def
        logEvent_def db1_def run1_def Let_def)
  have j: "findJob ?run ''job-1'' = Some (?job\<lparr>job_status := ''applied'', updated_at := Some 2000\<rparr>)"
    unfolding eq
    by (simp add: persistResult_def filledResult_def findJob_def updateRun_def updateJobStatus_def
        logEvent_def db1_def run1_def Let_def)
  have c5: "\<exists>r' j'. findRun ?run ''run-1'' = Some r' \<and> findJob ?run ''job-1'' = Some j'
        \<and> run_status r' = ''succeeded'' \<and> finished_at r' = Some 2000
        \<and> map_option rj_dryRun (run_result_json r') = Some (Some False)
        \<and> job_status j' = ''applied'' \<and> updated_at j' = Some 2000"
    unfolding r j by simp
  show ?thesis
    using c1 c2 c3 c4 c5 by blast
qed

section \<open>The task runner: claimRun\<close>

text \<open>\<open>claimMark\<close> is the update of the claim: \<open>status: 'running', started_at: now\<close>.\<close>

definition claimMark :: "int \<Rightarrow> run_row \<Rightarrow> run_row" where
  "claimMark now r = r\<lparr>run_status := ''running'', started_at := Some now\<rparr>"

text \<open>The first statement: \<open>select * ... eq('status', 'queued') limit 1\<close>.\<close>

definition fetchQueued :: "db \<Rightarrow> run_row list" where
  "fetchQueued d = take 1 (filter (\<lambda>r. run_status r = ''queued'') (application_runs d))"

text \<open>
  The second statement, one statement of the database: \<open>update ... eq('id', rid)
  eq('status', 'queued') select single\<close>. Every row with that id that is still queued
  is marked; the statement answers with the marked row when there is exactly one and
  with an error (no data) otherwise.
\<close>

definition markIfQueued :: "string \<Rightarrow> int \<Rightarrow> run_row \<Rightarrow> run_row" where
  "markIfQueued rid now r = (if run_id r = rid \<and> run_status r = ''queued'' then claimMark now r else r)"

definition guardedUpdate :: "string \<Rightarrow> int \<Rightarrow> db \<Rightarrow> run_row option \<times> db" where
  "guardedUpdate rid now d =
     (single (map (claimMark now)
        (filter (\<lambda>r. run_id r = rid \<and> run_status r = ''queued'') (application_runs d))),
      d\<lparr>application_runs := map (markIfQueued rid now) (application_runs d)\<rparr>)"

definition claimRun :: "int \<Rightarrow> db \<Rightarrow> run_row option \<times> db" where
  "claimRun now d =
     (case fetchQueued d of
        [] \<Rightarrow> (None, d)
      | run # rest \<Rightarrow>
          (case guardedUpdate (run_id run) now d of
             (None, d') \<Rightarrow> (None, d')
           | (Some claimed, d') \<Rightarrow>
               (Some claimed, logEvent (run_id claimed) ''info'' ''Run claimed by worker'' None d')))"

subsection \<open>Workers calling claimRun at the same time\<close>

text \<open>
  A worker inside \<open>claimRun\<close> is before its first statement, between the two (holding
  the row it fetched), or done with what \<open>claimRun\<close> returns. The database runs one
  statement at a time; a schedule says which worker's next statement runs, and what the
  clock reads then.
\<close>

datatype worker = Idle | Fetched run_row | Done "run_row option"

definition workerStep :: "int \<Rightarrow> worker \<Rightarrow> db \<Rightarrow> worker \<times> db" where
  "workerStep now w d =
     (case w of
        Idle \<Rightarrow>
          (case fetchQueued d of
             [] \<Rightarrow> (Done None, d)
           | run # rest \<Rightarrow> (Fetched run, d))
      | Fetched run \<Rightarrow>
          (case guardedUpdate (run_id run) now d of
             (None, d') \<Rightarrow> (Done None, d')
           | (Some claimed, d') \<Rightarrow>
               (Done (Some claimed), logEvent (run_id claimed) ''info'' ''Run claimed by worker'' None d'))
      | Done res \<Rightarrow> (Done res, d))"

definition step :: "nat \<times> int \<Rightarrow> worker list \<times> db \<Rightarrow> worker list \<times> db" where
  "step ev s =
     (if fst ev < length (fst s)
      then (case workerStep (snd ev) (fst s ! fst ev) (snd s) of
              (w', d') \<Rightarrow> ((fst s)[fst ev := w'], d'))
      else s)"

definition runSchedule :: "(nat \<times> int) list \<Rightarrow> worker list \<times> db \<Rightarrow> worker list \<times> db" where
  "runSchedule sched s = fold step sched s"

definition claimedBy :: "worker \<Rightarrow> run_row option" where
  "claimedBy w = (case w of Done res \<Rightarrow> res | _ \<Rightarrow> None)"

text \<open>\<open>holders rid ws\<close>: how many of the workers were handed the run \<open>rid\<close>.\<close>

definition holdsRun :: "string \<Rightarrow> worker \<Rightarrow> bool" where
  "holdsRun rid w = (case claimedBy w of None \<Rightarrow> False | Some c \<Rightarrow> run_id c = rid)"

definition holders :: "string \<Rightarrow> worker list \<Rightarrow> nat" where
  "holders rid ws = length (filter (holdsRun rid) ws)"

definition queuedIn :: "db \<Rightarrow> string \<Rightarrow> bool" where
  "queuedIn d rid = list_ex (\<lambda>r. run_id r = rid \<and> run_status r = ''queued'') (application_runs d)"

text \<open>A statement changes a row only from queued to running.\<close>

definition onlyClaims :: "int \<Rightarrow> db \<Rightarrow> db \<Rightarrow> bool" where
  "onlyClaims now d d' =
     list_all2 (\<lambda>r r'. r' = r \<or> (run_status r = ''queued'' \<and> r' = claimMark now r))
       (application_runs d) (application_runs d')"

section \<open>Properties of claimRun\<close>

lemma claimRun_two_steps:
  "claimRun now d =
     (case workerStep now Idle d of
        (w1, d1) \<Rightarrow> (case workerStep now w1 d1 of (w2, d2) \<Rightarrow> (claimedBy w2, d2)))"
proof (cases "fetchQueued d")
  case Nil
  then show ?thesis
    by (simp add: claimRun_def workerStep_def claimedBy_def)
next
  case (Cons run rest)
  obtain res d' where gu: "guardedUpdate (run_id run) now d = (res, d')"
    by (cases "guardedUpdate (run_id run) now d")
  show ?thesis
  proof (cases res)
    case None
    with Cons gu show ?thesis
      by (simp add: claimRun_def workerStep_def claimedBy_def)
  next
    case (Some c)
    with Cons gu show ?thesis
      by (simp add: claimRun_def workerStep_def claimedBy_def)
  qed
qed

lemma queuedIn_logEvent [simp]: "queuedIn (logEvent rid level msg data d) k = queuedIn d k"
  by (simp add: queuedIn_def logEvent_def)

lemma queuedIn_iff:
  "queuedIn d rid \<longleftrightarrow> (\<exists>r \<in> set (application_runs d). run_id r = rid \<and> run_status r = ''queued'')"
  by (auto simp: queuedIn_def list_ex_iff)

lemma claimMark_simps [simp]:
  "run_id (claimMark now r) = run_id r" "run_status (claimMark now r) = ''running''"
  by (simp_all add: claimMark_def)

lemma markIfQueued_simps:
  "run_id (markIfQueued rid now r) = run_id r"
  "run_status (markIfQueued rid now r) = ''queued'' \<longleftrightarrow> run_status r = ''queued'' \<and> run_id r \<noteq> rid"
  by (auto simp: markIfQueued_def)

lemma application_runs_guardedUpdate:
  "application_runs (snd (guardedUpdate rid now d)) = map (markIfQueued rid now) (application_runs d)"
  by (simp add: guardedUpdate_def)

lemma queuedIn_guardedUpdate:
  "queuedIn (snd (guardedUpdate rid now d)) k \<longleftrightarrow> queuedIn d k \<and> k \<noteq> rid"
proof -
  have "queuedIn (snd (guardedUpdate rid now d)) k
          \<longleftrightarrow> (\<exists>r \<in> set (application_runs d).
                 run_id (markIfQueued rid now r) = k \<and> run_status (markIfQueued rid now r) = ''queued'')"
    unfolding queuedIn_iff application_runs_guardedUpdate by simp
  also have "\<dots> \<longleftrightarrow> (\<exists>r \<in> set (application_runs d). run_id r = k \<and> run_status r = ''queued'' \<and> k \<noteq> rid)"
    unfolding markIfQueued_simps by blast
  also have "\<dots> \<longleftrightarrow> queuedIn d k \<and> k \<noteq> rid"
    unfolding queuedIn_iff by blast
  finally show ?thesis .
qed

lemma guardedUpdate_not_queued:
  "\<not> queuedIn (snd (guardedUpdate rid now d)) rid"
  by (simp add: queuedIn_guardedUpdate)

lemma guardedUpdate_others:
  "queuedIn (snd (guardedUpdate rid now d)) k \<Longrightarrow> queuedIn d k"
  by (simp add: queuedIn_guardedUpdate)

lemma guardedUpdate_Some:
  assumes "fst (guardedUpdate rid now d) = Some c"
  shows "run_id c = rid \<and> queuedIn d rid"
proof -
  let ?hits = "filter (\<lambda>r. run_id r = rid \<and> run_status r = ''queued'') (application_runs d)"
  from assms have "single (map (claimMark now) ?hits) = Some c"
    by (simp add: guardedUpdate_def)
  then have "map (claimMark now) ?hits = [c]"
    by (simp add: single_def split: list.splits)
  then obtain r where hits: "?hits = [r]" and c: "c = claimMark now r"
    by (cases ?hits) auto
  have "r \<in> set ?hits"
    unfolding hits by simp
  then have "r \<in> set (application_runs d)" "run_id r = rid" "run_status r = ''queued''"
    by simp_all
  then show ?thesis
    unfolding c queuedIn_iff by auto
qed

lemma guardedUpdate_lost:
  assumes "\<not> queuedIn d rid"
  shows "guardedUpdate rid now d = (None, d)"
proof -
  have none: "\<And>r. r \<in> set (application_runs d) \<Longrightarrow> \<not> (run_id r = rid \<and> run_status r = ''queued'')"
    using assms unfolding queuedIn_iff by blast
  then have "filter (\<lambda>r. run_id r = rid \<and> run_status r = ''queued'') (application_runs d) = []"
    unfolding filter_empty_conv by blast
  moreover have "map (markIfQueued rid now) (application_runs d) = application_runs d"
  proof (rule map_idI)
    fix r assume "r \<in> set (application_runs d)"
    then show "markIfQueued rid now r = r"
      using none [of r] by (auto simp: markIfQueued_def)
  qed
  ultimately show ?thesis
    by (simp add: guardedUpdate_def single_def)
qed

lemma onlyClaims_guardedUpdate: "onlyClaims now d (snd (guardedUpdate rid now d))"
proof -
  have "\<And>r. markIfQueued rid now r = r \<or> (run_status r = ''queued'' \<and> markIfQueued rid now r = claimMark now r)"
    by (simp add: markIfQueued_def)
  then show ?thesis
    unfolding onlyClaims_def application_runs_guardedUpdate
    by (simp add: list_all2_map2 list_all2_same)
qed

lemma onlyClaims_refl: "onlyClaims now d d"
  by (simp add: onlyClaims_def list_all2_same)

lemma onlyClaims_logEvent: "onlyClaims now d (logEvent rid level msg data d') = onlyClaims now d d'"
  by (simp add: onlyClaims_def logEvent_def)

lemma onlyClaims_workerStep: "onlyClaims now d (snd (workerStep now w d))"
proof (cases w)
  case Idle
  then show ?thesis by (simp add: workerStep_def onlyClaims_refl split: list.splits)
next
  case (Fetched run)
  obtain res d' where gu: "guardedUpdate (run_id run) now d = (res, d')"
    by (cases "guardedUpdate (run_id run) now d")
  then have oc: "onlyClaims now d d'"
    using onlyClaims_guardedUpdate [of now d "run_id run"] by simp
  show ?thesis
  proof (cases res)
    case None
    with Fetched gu oc show ?thesis by (simp add: workerStep_def)
  next
    case (Some c)
    with Fetched gu oc show ?thesis by (simp add: workerStep_def onlyClaims_logEvent)
  qed
next
  case (Done res)
  then show ?thesis by (simp add: workerStep_def onlyClaims_refl)
qed

lemma filter_length_update:
  assumes "i < length xs" and "\<not> P (xs ! i)"
  shows "length (filter P (xs[i := y])) = length (filter P xs) + (if P y then 1 else 0)"
  using assms
proof (induction xs arbitrary: i)
  case Nil
  then show ?case by simp
next
  case (Cons x xs)
  then show ?case by (cases i) auto
qed

text \<open>
  The invariant of every schedule: a run that is still queued has been handed to no
  worker, and a run that is not has been handed to one worker at most.
\<close>

definition exclusive :: "worker list \<times> db \<Rightarrow> bool" where
  "exclusive s = (\<forall>rid. holders rid (fst s) \<le> (if queuedIn (snd s) rid then 0 else 1))"

lemma exclusive_step:
  assumes "exclusive s"
  shows "exclusive (step ev s)"
proof (cases "fst ev < length (fst s)")
  case False
  with assms show ?thesis by (simp add: step_def)
next
  case i: True
  obtain ws d where s: "s = (ws, d)" by (cases s)
  obtain i now where ev: "ev = (i, now)" by (cases ev)
  from i s ev have len: "i < length ws" by simp
  have inv: "\<And>rid. holders rid ws \<le> (if queuedIn d rid then 0 else 1)"
    using assms s by (simp add: exclusive_def)
  show ?thesis
  proof (cases "ws ! i")
    case Idle
    then have nh: "\<And>rid. \<not> holdsRun rid (ws ! i)" by (simp add: holdsRun_def claimedBy_def)
    define w' where "w' = fst (workerStep now Idle d)"
    have st: "workerStep now Idle d = (w', d)"
      by (simp add: w'_def workerStep_def split: list.splits)
    have w': "\<And>rid. \<not> holdsRun rid w'"
      by (simp add: w'_def workerStep_def holdsRun_def claimedBy_def split: list.splits)
    have "\<And>rid. holders rid (ws[i := w']) = holders rid ws"
      using filter_length_update [of i ws "holdsRun rid" w' for rid] len nh w'
      by (simp add: holders_def)
    with inv st Idle len show ?thesis
      by (simp add: step_def s ev exclusive_def)
  next
    case (Done res)
    then have "ws[i := Done res] = ws" using len by (metis list_update_id)
    with inv Done len show ?thesis
      by (simp add: step_def s ev exclusive_def workerStep_def)
  next
    case (Fetched run)
    then have nh: "\<And>rid. \<not> holdsRun rid (ws ! i)" by (simp add: holdsRun_def claimedBy_def)
    obtain res d' where gu: "guardedUpdate (run_id run) now d = (res, d')"
      by (cases "guardedUpdate (run_id run) now d")
    have nq: "\<not> queuedIn d' (run_id run)"
      using guardedUpdate_not_queued [of "run_id run" now d] gu by simp
    have mono: "\<And>k. queuedIn d' k \<Longrightarrow> queuedIn d k"
      using guardedUpdate_others [of "run_id run" now d] gu by simp
    have weaker: "\<And>rid. holders rid ws \<le> (if queuedIn d' rid then 0 else 1)"
    proof -
      fix rid
      show "holders rid ws \<le> (if queuedIn d' rid then 0 else 1)"
      proof (cases "queuedIn d' rid")
        case True
        then have "queuedIn d rid" by (rule mono)
        with inv [of rid] True show ?thesis by simp
      next
        case False
        with inv [of rid] show ?thesis by (simp split: if_splits)
      qed
    qed
    show ?thesis
    proof (cases res)
      case None
      then have st: "workerStep now (Fetched run) d = (Done None, d')"
        using gu by (simp add: workerStep_def)
      have dn: "\<And>rid. \<not> holdsRun rid (Done None)"
        by (simp add: holdsRun_def claimedBy_def)
      have "\<And>rid. holders rid (ws[i := Done None]) = holders rid ws"
        using filter_length_update [of i ws "holdsRun rid" "Done None" for rid] len nh dn
        by (simp add: holders_def)
      moreover have "\<And>rid. holders rid ws \<le> (if queuedIn d' rid then 0 else 1)"
        by (rule weaker)
      ultimately show ?thesis
        using st Fetched len by (simp add: step_def s ev exclusive_def)
    next
      case (Some c)
      then have st: "workerStep now (Fetched run) d =
          (Done (Some c), logEvent (run_id c) ''info'' ''Run claimed by worker'' None d')"
        using gu by (simp add: workerStep_def)
      have c: "run_id c = run_id run" "queuedIn d (run_id run)"
        using guardedUpdate_Some [of "run_id run" now d c] gu Some by simp_all
      have free: "holders (run_id run) ws = 0"
        using inv [of "run_id run"] c(2) by simp
      have hc: "\<And>rid. holdsRun rid (Done (Some c)) = (rid = run_id run)"
        using c(1) by (auto simp: holdsRun_def claimedBy_def)
      have upd: "\<And>rid. holders rid (ws[i := Done (Some c)])
                   = holders rid ws + (if rid = run_id run then 1 else 0)"
        using filter_length_update [of i ws "holdsRun rid" "Done (Some c)" for rid] len nh hc
        by (simp add: holders_def)
      have "\<And>rid. holders rid (ws[i := Done (Some c)]) \<le> (if queuedIn d' rid then 0 else 1)"
      proof -
        fix rid
        show "holders rid (ws[i := Done (Some c)]) \<le> (if queuedIn d' rid then 0 else 1)"
        proof (cases "rid = run_id run")
          case True
          then show ?thesis using upd [of rid] free nq by simp
        next
          case False
          then show ?thesis using upd [of rid] weaker [of rid] by simp
        qed
      qed
      then show ?thesis
        using st Fetched len by (simp add: step_def s ev exclusive_def)
    qed
  qed
qed

lemma exclusive_runSchedule:
  assumes "exclusive s"
  shows "exclusive (runSchedule sched s)"
  using assms unfolding runSchedule_def
  by (induction sched arbitrary: s) (simp_all add: exclusive_step)

lemma exclusive_initial: "exclusive (replicate n Idle, d)"
  by (simp add: exclusive_def holders_def holdsRun_def claimedBy_def)

lemma holders_le_1:
  "holders rid (fst (runSchedule sched (replicate n Idle, d))) \<le> 1"
proof -
  have "exclusive (runSchedule sched (replicate n Idle, d))"
    using exclusive_initial by (rule exclusive_runSchedule)
  then have "holders rid (fst (runSchedule sched (replicate n Idle, d)))
               \<le> (if queuedIn (snd (runSchedule sched (replicate n Idle, d))) rid then 0 else 1)"
    by (simp add: exclusive_def)
  then show ?thesis by (simp split: if_splits)
qed

lemma guard_lost:
  assumes "\<not> queuedIn d (run_id run)"
  shows "workerStep now (Fetched run) d = (Done None, d)"
  using guardedUpdate_lost [OF assms, of now] by (simp add: workerStep_def)

text \<open>
  Claim C5. Any number of workers call \<open>claimRun\<close> on any database, their statements
  interleaved in any order: a given run is handed to one of them at most. A statement
  of \<open>claimRun\<close> changes a row only from queued to running. A worker whose fetched run
  is no longer queued when its update runs gets \<open>null\<close>, with no error and no change
  to the database. One call of \<open>claimRun\<close> is the two statements in a row.
\<close>

theorem claimRun_exclusive:
  "holders rid (fst (runSchedule sched (replicate n Idle, d))) \<le> 1
   \<and> onlyClaims now d (snd (workerStep now w d))
   \<and> (\<not> queuedIn d (run_id run) \<longrightarrow> workerStep now (Fetched run) d = (Done None, d))
   \<and> claimRun now d =
       (case workerStep now Idle d of
          (w1, d1) \<Rightarrow> (case workerStep now w1 d1 of (w2, d2) \<Rightarrow> (claimedBy w2, d2)))"
  using holders_le_1 onlyClaims_workerStep guard_lost claimRun_two_steps by blast

text \<open>Two workers race for the one queued run: both fetch it, then both try the
  update.\<close>

definition queuedRun :: run_row where
  "queuedRun = run1\<lparr>run_status := ''queued'', started_at := None\<rparr>"

definition queueDb :: db where
  "queueDb = (db1 ''https://boards.greenhouse.io/acme/jobs/1'')\<lparr>application_runs := [queuedRun]\<rparr>"

definition race :: "(nat \<times> int) list" where
  "race = [(0, 10), (1, 11), (0, 12), (1, 13)]"

lemma race_outcome:
  "fst (runSchedule race (replicate 2 Idle, queueDb))
     = [Done (Some (queuedRun\<lparr>run_status := ''running'', started_at := Some 12\<rparr>)), Done None]"
proof -
  have two: "replicate 2 Idle = [Idle, Idle]"
    by (simp add: numeral_2_eq_2)
  have f: "fetchQueued queueDb = [queuedRun]"
    by (simp add: fetchQueued_def queueDb_def queuedRun_def)
  have s1: "step (0, 10) ([Idle, Idle], queueDb) = ([Fetched queuedRun, Idle], queueDb)"
    by (simp add: step_def workerStep_def f)
  have s2: "step (1, 11) ([Fetched queuedRun, Idle], queueDb) = ([Fetched queuedRun, Fetched queuedRun], queueDb)"
    by (simp add: step_def workerStep_def f)
  define d3 where "d3 = snd (step (0, 12) ([Fetched queuedRun, Fetched queuedRun], queueDb))"
  have s3: "step (0, 12) ([Fetched queuedRun, Fetched queuedRun], queueDb)
      = ([Done (Some (queuedRun\<lparr>run_status := ''running'', started_at := Some 12\<rparr>)), Fetched queuedRun], d3)"
    unfolding d3_def
    by (simp add: step_def workerStep_def guardedUpdate_def single_def claimMark_def queueDb_def
        queuedRun_def)
  have "application_runs d3 = [queuedRun\<lparr>run_status := ''running'', started_at := Some 12\<rparr>]"
    unfolding d3_def
    by (simp add: step_def workerStep_def guardedUpdate_def single_def claimMark_def markIfQueued_def
        logEvent_def queueDb_def queuedRun_def)
  then have "\<not> queuedIn d3 (run_id queuedRun)"
    by (simp add: queuedIn_def queuedRun_def)
  then have "workerStep 13 (Fetched queuedRun) d3 = (Done None, d3)"
    by (rule guard_lost)
  then have s4: "step (1, 13) ([Done (Some (queuedRun\<lparr>run_status := ''running'', started_at := Some 12\<rparr>)),
        Fetched queuedRun], d3)
      = ([Done (Some (queuedRun\<lparr>run_status := ''running'', started_at := Some 12\<rparr>)), Done None], d3)"
    by (simp add: step_def)
  show ?thesis
    using s1 s2 s3 s4 by (simp add: runSchedule_def race_def two)
qed

theorem claimRun_exclusive_witness:
  "holders ''run-1'' (fst (runSchedule race (replicate 2 Idle, queueDb))) \<le> 1
   \<and> fst (runSchedule race (replicate 2 Idle, queueDb))
       = [Done (Some (queuedRun\<lparr>run_status := ''running'', started_at := Some 12\<rparr>)), Done None]
   \<and> workerStep 13 (Fetched queuedRun) (db1 ''https://boards.greenhouse.io/acme/jobs/1'')
       = (Done None, db1 ''https://boards.greenhouse.io/acme/jobs/1'')"
proof -
  have "\<not> queuedIn (db1 ''https://boards.greenhouse.io/acme/jobs/1'') (run_id queuedRun)"
    by (simp add: queuedIn_def db1_def run1_def)
  then show ?thesis
    using claimRun_exclusive [where rid = "''run-1''" and sched = race and n = 2 and d = queueDb]
      claimRun_exclusive [where d = "db1 ''https://boards.greenhouse.io/acme/jobs/1''"
        and run = queuedRun and now = 13]
      race_outcome
    by blast
qed

end
